theory Spec2Isabelle
  imports Main "HOL-Library.Sublist" "HOL-Library.Multiset"
begin

section \<open>Text primitives\<close>

text \<open>
  Message texts and keywords are Python strings.  They are modelled as lists of
  \<^typ>\<open>char\<close>, each character standing for the code point of the same number
  (0 to 255).  On these code points \<^verbatim>\<open>str.lower\<close> maps A-Z and the Latin-1 capitals
  (0xC0-0xDE without the multiplication sign 0xD7) to the letter 32 places further on and
  leaves everything else alone, and the regular-expression class \<^verbatim>\<open>\w\<close> holds the
  alphanumeric code points and the underscore.
\<close>

definition lower_char :: "char \<Rightarrow> char" where
  "lower_char c =
     (let n = (of_char c :: nat) in
      if (65 \<le> n \<and> n \<le> 90) \<or> (192 \<le> n \<and> n \<le> 222 \<and> n \<noteq> 215)
      then char_of (n + 32) else c)"

definition lower :: "string \<Rightarrow> string" where
  "lower s = map lower_char s"

definition is_word_char :: "char \<Rightarrow> bool" where
  "is_word_char c =
     (let n = (of_char c :: nat) in
      (48 \<le> n \<and> n \<le> 57) \<or> (65 \<le> n \<and> n \<le> 90) \<or> n = 95 \<or> (97 \<le> n \<and> n \<le> 122)
      \<or> n = 170 \<or> n = 178 \<or> n = 179 \<or> n = 181 \<or> n = 185 \<or> n = 186
      \<or> (188 \<le> n \<and> n \<le> 190) \<or> (192 \<le> n \<and> n \<le> 214) \<or> (216 \<le> n \<and> n \<le> 246)
      \<or> (248 \<le> n \<and> n \<le> 255))"

text \<open>
  \<^verbatim>\<open>re.search(r'\b' + re.escape(kw) + r'\b', text)\<close>: the escaped keyword matches
  itself literally, and \<^verbatim>\<open>\b\<close> holds at a position where exactly one of the
  characters before and after it is a word character (the two ends of the text count as
  non-word).  The scan goes through the start positions from left to right; \<open>prev\<close>
  says whether the character before the current position is a word character.
\<close>

fun next_is_word :: "string \<Rightarrow> bool" where
  "next_is_word [] = False"
| "next_is_word (c # cs) = is_word_char c"

fun match_literal :: "bool \<Rightarrow> string \<Rightarrow> string \<Rightarrow> bool" where
  "match_literal prev [] rest = (prev \<noteq> next_is_word rest)"
| "match_literal prev (k # ks) [] = False"
| "match_literal prev (k # ks) (c # cs) = (k = c \<and> match_literal (is_word_char c) ks cs)"

definition match_at :: "bool \<Rightarrow> string \<Rightarrow> string \<Rightarrow> bool" where
  "match_at prev kw rest = (prev \<noteq> next_is_word rest \<and> match_literal prev kw rest)"

fun re_search_from :: "bool \<Rightarrow> string \<Rightarrow> string \<Rightarrow> bool" where
  "re_search_from prev kw [] = match_at prev kw []"
| "re_search_from prev kw (c # cs) =
     (match_at prev kw (c # cs) \<or> re_search_from (is_word_char c) kw cs)"

definition keyword_search :: "string \<Rightarrow> string \<Rightarrow> bool" where
  \<comment> \<open>\<^verbatim>\<open>re.search(r'\b' + re.escape(keyword.lower()) + r'\b', text)\<close>\<close>
  "keyword_search keyword txt = re_search_from False (lower keyword) txt"

section \<open>The indicator tables\<close>

text \<open>
  The dictionaries of \<^verbatim>\<open>darvo_indicators.py\<close>, as association lists in the order of
  the source (Python dictionaries iterate in insertion order).
\<close>

definition DARVO_INDICATORS_Deny :: "(string \<times> string list) list" where
  \<comment> \<open>the table under key Deny of the indicator dictionary\<close>
  "DARVO_INDICATORS_Deny =
    [(''minimization'',
       [''it wasn't that bad'', ''you're exaggerating'', ''it's not a big deal'',
        ''you're making it worse than it was'', ''that never happened'',
        ''you're remembering it wrong'', ''it wasn't like that'',
        ''you're blowing it out of proportion'', ''I barely'', ''I hardly'',
        ''all I did was'', ''I only'', ''just a little'', ''not as bad as'',
        ''everyone does it'', ''it's normal'', ''that's just how I am'']),
     (''outright_denial'',
       [''I never said that'', ''I never did that'', ''that didn't happen'',
        ''you're lying'', ''you made that up'', ''prove it'', ''where's your evidence'',
        ''that's not true'', ''I would never'', ''you're making things up'',
        ''I don't remember that'', ''you're confused'', ''you're mistaken'',
        ''that's fabricated'', ''complete lies'', ''false accusations'']),
     (''blame_shifting'',
       [''you made me'', ''you provoked me'', ''you started it'', ''if you hadn't'',
        ''you caused this'', ''it's your fault'', ''you pushed me to'',
        ''you left me no choice'', ''what did you expect'', ''you should have'',
        ''you shouldn't have'', ''because of you'', ''you're responsible for'',
        ''you brought this on yourself''])]"

definition DARVO_INDICATORS_Attack :: "(string \<times> string list) list" where
  \<comment> \<open>the table under key Attack of the indicator dictionary\<close>
  "DARVO_INDICATORS_Attack =
    [(''credibility_attacks'',
       [''you're crazy'', ''you're mentally ill'', ''you're unstable'', ''you need help'',
        ''you're delusional'', ''you're paranoid'', ''you're irrational'',
        ''you can't be trusted'', ''you're unreliable'', ''everyone knows you're'',
        ''history of lying'', ''track record'', ''you always lie'', ''nobody believes you'',
        ''you're not credible'', ''you have issues'', ''seek therapy'', ''get help'']),
     (''character_assassination'',
       [''you're a bad mother'', ''you're a bad father'', ''unfit parent'', ''bad person'',
        ''terrible'', ''vindictive'', ''vengeful'', ''manipulative'', ''controlling'',
        ''abusive'', ''toxic'', ''you're the problem'', ''you're the one'',
        ''you're actually'', ''you're just like'', ''narcissist'', ''sociopath'', ''psycho'']),
     (''threat_of_consequences'',
       [''I'll tell everyone'', ''I'll expose you'', ''everyone will know'',
        ''you'll lose the kids'', ''I'll take the children'', ''custody'', ''I'll ruin you'',
        ''destroy your reputation'', ''nobody will believe you'', ''you'll regret this'',
        ''you'll pay for this'', ''I'll make sure'', ''the court will see'',
        ''the judge will know'', ''I'll prove'', ''evidence against you'',
        ''document everything'', ''legal action'']),
     (''gaslighting'',
       [''that never happened'', ''you're imagining things'', ''you're too sensitive'',
        ''you're overreacting'', ''you can't take a joke'', ''you're being dramatic'',
        ''you're twisting things'', ''that's not what I meant'', ''you misunderstood'',
        ''you're reading too much into it'', ''you're being ridiculous'',
        ''you're making a scene'', ''calm down'', ''relax''])]"

definition DARVO_INDICATORS_Reverse :: "(string \<times> string list) list" where
  \<comment> \<open>the table under key Reverse_Victim_Offender of the indicator dictionary\<close>
  "DARVO_INDICATORS_Reverse =
    [(''self_victimization'',
       [''I'm the victim here'', ''I'm the one suffering'', ''what about me'',
        ''I'm being attacked'', ''I'm being abused'', ''I'm being harassed'',
        ''you're hurting me'', ''you're destroying me'', ''I can't take this anymore'',
        ''look what you've done to me'', ''I'm the one in pain'',
        ''I'm being treated unfairly'', ''I'm being persecuted'', ''this is abuse'',
        ''you're abusing me'', ''I need protection from you'']),
     (''victim_blaming'',
       [''you're the real abuser'', ''you're the manipulator'', ''you're controlling'',
        ''you're the violent one'', ''you started this'', ''you're the aggressor'',
        ''you're alienating the children'', ''parental alienation'',
        ''you're turning them against me'', ''you're poisoning them'',
        ''you're using the children'', ''you're the narcissist'', ''you're projecting'',
        ''you're doing exactly what you accuse me of'']),
     (''false_equivalence'',
       [''we're both'', ''you do it too'', ''you're just as bad'', ''you're no better'',
        ''we both'', ''mutual abuse'', ''it's mutual'', ''both sides'', ''we're equally'',
        ''you also'', ''what about when you'', ''remember when you'', ''you've done worse'',
        ''at least I didn't'']),
     (''protective_parent_reversal'',
       [''I'm protecting the children from you'', ''the children are afraid of you'',
        ''I'm the safe parent'', ''you're unstable around the kids'',
        ''I'm the primary caregiver'', ''the children need me'', ''you're a danger to them'',
        ''I'm keeping them safe'', ''they don't want to see you'', ''they're scared of you'',
        ''I'm acting in their best interest''])]"

definition DARVO_INDICATORS_Institutional :: "(string \<times> string list) list" where
  \<comment> \<open>the table under key Institutional_DARVO of the indicator dictionary\<close>
  "DARVO_INDICATORS_Institutional =
    [(''court_manipulation'',
       [''false allegations'', ''she's lying to the court'', ''he's deceiving the judge'',
        ''fabricated evidence'', ''coached the children'', ''parental alienation syndrome'',
        ''high conflict parent'', ''making false reports'', ''weaponizing the system'',
        ''abusing the legal process'', ''frivolous complaints'', ''attention seeking'',
        ''playing the victim card'']),
     (''professional_credibility'',
       [''I'm a professional'', ''I'm a respected member'', ''my reputation'',
        ''my standing in the community'', ''never had complaints before'',
        ''exemplary record'', ''decorated'', ''award winning'', ''everyone knows me as'',
        ''ask anyone'', ''references will show'']),
     (''systemic_bias_indicators'',
       [''mothers always get'', ''fathers are discriminated against'',
        ''the system is biased'', ''family court favors'', ''automatically believes'',
        ''without investigation'', ''rushed to judgment'', ''presumed guilty'',
        ''not given a fair chance'', ''predetermined outcome''])]"

definition CHILD_FOCUSED_DARVO :: "(string \<times> string list) list" where
  \<comment> \<open>child-specific indicator table\<close>
  "CHILD_FOCUSED_DARVO =
    [(''child_weaponization'',
       [''the children say'', ''ask the kids'', ''children don't lie'',
        ''they told me about'', ''they witnessed'', ''they're afraid of you'',
        ''they don't want to see you'', ''they asked me to'', ''protecting the children'',
        ''for the kids' safety'']),
     (''parental_alienation_claims'',
       [''parental alienation'', ''turning the children against me'',
        ''poisoning their minds'', ''coaching the children'', ''brainwashing'',
        ''manipulating the kids'']),
     (''custody_threats'',
       [''you'll never see them again'', ''I'll get full custody'', ''no visitation'',
        ''supervised visits only'', ''unfit parent'', ''not safe around children'',
        ''danger to the kids''])]"

definition DARVO_SEVERITY_WEIGHTS_Deny :: "(string \<times> nat) list" where
  "DARVO_SEVERITY_WEIGHTS_Deny =
    [(''minimization'', 1),
     (''outright_denial'', 2),
     (''blame_shifting'', 3)]"

definition DARVO_SEVERITY_WEIGHTS_Attack :: "(string \<times> nat) list" where
  "DARVO_SEVERITY_WEIGHTS_Attack =
    [(''credibility_attacks'', 3),
     (''character_assassination'', 4),
     (''threat_of_consequences'', 5),
     (''gaslighting'', 3)]"

definition DARVO_SEVERITY_WEIGHTS_Reverse :: "(string \<times> nat) list" where
  "DARVO_SEVERITY_WEIGHTS_Reverse =
    [(''self_victimization'', 3),
     (''victim_blaming'', 4),
     (''false_equivalence'', 2),
     (''protective_parent_reversal'', 5)]"

definition DARVO_SEVERITY_WEIGHTS_Institutional :: "(string \<times> nat) list" where
  "DARVO_SEVERITY_WEIGHTS_Institutional =
    [(''court_manipulation'', 5),
     (''professional_credibility'', 2),
     (''systemic_bias_indicators'', 3)]"
definition weight_of :: "(string \<times> nat) list \<Rightarrow> string \<Rightarrow> nat" where
  \<comment> \<open>\<^verbatim>\<open>DARVO_SEVERITY_WEIGHTS[category][subcategory]\<close>; a missing key would be a
      KeyError, which the static tables exclude (lemma \<open>weights_cover_indicators\<close>)\<close>
  "weight_of table subcategory = (case map_of table subcategory of Some w \<Rightarrow> w | None \<Rightarrow> 0)"

record pattern_def =
  pd_description :: string
  pd_pattern :: "string list"
  pd_window_messages :: nat

definition DARVO_COMPOUND_PATTERNS :: "(string \<times> pattern_def) list" where
  "DARVO_COMPOUND_PATTERNS =
    [(''deny_then_attack'',
       \<lparr>pd_description = ''Denying wrongdoing immediately followed by attacking the accuser'',
        pd_pattern = [''deny'', ''attack''], pd_window_messages = 3\<rparr>),
     (''attack_then_reverse'',
       \<lparr>pd_description = ''Attacking credibility then claiming to be the victim'',
        pd_pattern = [''attack'', ''reverse''], pd_window_messages = 5\<rparr>),
     (''full_darvo_sequence'',
       \<lparr>pd_description = ''Complete DARVO sequence: deny, attack, then reverse'',
        pd_pattern = [''deny'', ''attack'', ''reverse''], pd_window_messages = 10\<rparr>)]"

section \<open>Messages and result structures\<close>

text \<open>
  A \<^verbatim>\<open>datetime\<close> is kept as the number of microseconds since 0001-01-01 00:00:00, the
  first instant Python can represent.  A message is a dictionary read only through
  \<^verbatim>\<open>msg.get\<close>; a field is \<open>None\<close> when its key is absent (for the timestamp also when
  it is stored as \<^verbatim>\<open>None\<close>).
\<close>

type_synonym datetime = nat

record message =
  msg_text :: "string option"
  msg_sender :: "string option"
  msg_timestamp :: "datetime option"
  msg_platform :: "string option"

definition get_text :: "message \<Rightarrow> string" where
  \<comment> \<open>\<^verbatim>\<open>msg.get('text', '')\<close>\<close>
  "get_text msg = (case msg_text msg of None \<Rightarrow> [] | Some t \<Rightarrow> t)"

definition get_sender :: "message \<Rightarrow> string" where
  \<comment> \<open>\<^verbatim>\<open>msg.get('sender', 'Unknown')\<close>\<close>
  "get_sender msg = (case msg_sender msg of None \<Rightarrow> ''Unknown'' | Some s \<Rightarrow> s)"

text \<open>
  One recorded instance.  The source stores \<^verbatim>\<open>timestamp.isoformat()\<close>, or
  \<^verbatim>\<open>None\<close> for a message without timestamp; the rendering is kept as the instant it
  renders.  The key \<^verbatim>\<open>high_risk\<close> exists only in child-focused instances.
\<close>

record match_instance =
  inst_keyword :: string
  inst_text :: string
  inst_sender :: string
  inst_timestamp :: "datetime option"
  inst_severity :: nat
  inst_high_risk :: "bool option"

record pattern_entry =
  hit_count :: nat
  instances :: "match_instance list"

type_synonym pattern_results = "(string \<times> pattern_entry) list"

definition empty_entry :: pattern_entry where
  \<comment> \<open>\<^verbatim>\<open>{"count": 0, "instances": []}\<close>\<close>
  "empty_entry = \<lparr>hit_count = 0, instances = []\<rparr>"

section \<open>Per-category detection\<close>

definition new_instance ::
  "(string \<Rightarrow> nat) \<Rightarrow> bool option \<Rightarrow> message \<Rightarrow> string \<Rightarrow> string \<Rightarrow> match_instance" where
  "new_instance weight hr msg subcategory kw =
     \<lparr>inst_keyword = kw,
      inst_text = take 200 (get_text msg),
      inst_sender = get_sender msg,
      inst_timestamp = msg_timestamp msg,
      inst_severity = weight subcategory,
      inst_high_risk = hr\<rparr>"

fun record_hit :: "pattern_results \<Rightarrow> string \<Rightarrow> match_instance \<Rightarrow> pattern_results" where
  \<comment> \<open>\<^verbatim>\<open>results[subcategory]["count"] += 1; results[subcategory]["instances"].append(..)\<close>\<close>
  "record_hit [] subcategory inst = []"
| "record_hit ((k, e) # rest) subcategory inst =
     (if k = subcategory
      then (k, e\<lparr>hit_count := hit_count e + 1, instances := instances e @ [inst]\<rparr>) # rest
      else (k, e) # record_hit rest subcategory inst)"

text \<open>
  The three nested loops of a detector: messages, subcategories of the table, keywords of
  the subcategory.  The keyword loop leaves at its first hit (\<^verbatim>\<open>break\<close>).
\<close>

fun scan_keywords ::
  "(message \<Rightarrow> string \<Rightarrow> string \<Rightarrow> match_instance) \<Rightarrow> message \<Rightarrow> string \<Rightarrow> string list
     \<Rightarrow> pattern_results \<Rightarrow> pattern_results" where
  "scan_keywords mk msg subcategory [] results = results"
| "scan_keywords mk msg subcategory (kw # kws) results =
     (if keyword_search kw (lower (get_text msg))
      then record_hit results subcategory (mk msg subcategory kw)
      else scan_keywords mk msg subcategory kws results)"

fun scan_subcategories ::
  "(message \<Rightarrow> string \<Rightarrow> string \<Rightarrow> match_instance) \<Rightarrow> message \<Rightarrow> (string \<times> string list) list
     \<Rightarrow> pattern_results \<Rightarrow> pattern_results" where
  "scan_subcategories mk msg [] results = results"
| "scan_subcategories mk msg ((subcategory, keywords) # rest) results =
     scan_subcategories mk msg rest (scan_keywords mk msg subcategory keywords results)"

fun scan_messages ::
  "(message \<Rightarrow> string \<Rightarrow> string \<Rightarrow> match_instance) \<Rightarrow> (string \<times> string list) list
     \<Rightarrow> message list \<Rightarrow> pattern_results \<Rightarrow> pattern_results" where
  "scan_messages mk table [] results = results"
| "scan_messages mk table (msg # msgs) results =
     scan_messages mk table msgs (scan_subcategories mk msg table results)"

definition detect_deny_patterns :: "message list \<Rightarrow> pattern_results" where
  "detect_deny_patterns msgs =
     scan_messages (new_instance (weight_of DARVO_SEVERITY_WEIGHTS_Deny) None)
       DARVO_INDICATORS_Deny msgs
       [(''minimization'', empty_entry), (''outright_denial'', empty_entry),
        (''blame_shifting'', empty_entry)]"

definition detect_attack_patterns :: "message list \<Rightarrow> pattern_results" where
  "detect_attack_patterns msgs =
     scan_messages (new_instance (weight_of DARVO_SEVERITY_WEIGHTS_Attack) None)
       DARVO_INDICATORS_Attack msgs
       [(''credibility_attacks'', empty_entry), (''character_assassination'', empty_entry),
        (''threat_of_consequences'', empty_entry), (''gaslighting'', empty_entry)]"

definition detect_reverse_patterns :: "message list \<Rightarrow> pattern_results" where
  "detect_reverse_patterns msgs =
     scan_messages (new_instance (weight_of DARVO_SEVERITY_WEIGHTS_Reverse) None)
       DARVO_INDICATORS_Reverse msgs
       [(''self_victimization'', empty_entry), (''victim_blaming'', empty_entry),
        (''false_equivalence'', empty_entry), (''protective_parent_reversal'', empty_entry)]"

definition detect_institutional_patterns :: "message list \<Rightarrow> pattern_results" where
  "detect_institutional_patterns msgs =
     scan_messages (new_instance (weight_of DARVO_SEVERITY_WEIGHTS_Institutional) None)
       DARVO_INDICATORS_Institutional msgs
       [(''court_manipulation'', empty_entry), (''professional_credibility'', empty_entry),
        (''systemic_bias_indicators'', empty_entry)]"

definition detect_child_focused_patterns :: "message list \<Rightarrow> pattern_results" where
  \<comment> \<open>severity is the constant 5 and \<^verbatim>\<open>high_risk\<close> is set\<close>
  "detect_child_focused_patterns msgs =
     scan_messages (new_instance (\<lambda>_. 5) (Some True)) CHILD_FOCUSED_DARVO msgs
       [(''child_weaponization'', empty_entry), (''parental_alienation_claims'', empty_entry),
        (''custody_threats'', empty_entry)]"

section \<open>Role classification and compound patterns\<close>

datatype py_error = IndexError | OverflowError

definition any_keyword :: "(string \<times> string list) list \<Rightarrow> string \<Rightarrow> bool" where
  \<comment> \<open>\<^verbatim>\<open>any(re.search(..kw.., text) for subcat in table.values() for kw in subcat)\<close>\<close>
  "any_keyword table txt = list_ex (\<lambda>kw. keyword_search kw txt) (concat (map snd table))"

definition classify :: "message \<Rightarrow> string list" where
  "classify msg =
     (let txt = lower (get_text msg) in
      (if any_keyword DARVO_INDICATORS_Deny txt then [''deny''] else []) @
      (if any_keyword DARVO_INDICATORS_Attack txt then [''attack''] else []) @
      (if any_keyword DARVO_INDICATORS_Reverse txt then [''reverse''] else []))"

record classified =
  classifications :: "string list"
  message_of :: message

definition classify_all :: "message list \<Rightarrow> classified list" where
  "classify_all msgs = map (\<lambda>msg. \<lparr>classifications = classify msg, message_of = msg\<rparr>) msgs"

fun check_pattern_loop :: "classified list \<Rightarrow> string list \<Rightarrow> nat \<Rightarrow> nat" where
  "check_pattern_loop [] target pattern_index = pattern_index"
| "check_pattern_loop (msg_class # window) target pattern_index =
     check_pattern_loop window target
       (if pattern_index < length target
           \<and> target ! pattern_index \<in> set (classifications msg_class)
        then pattern_index + 1 else pattern_index)"

definition check_pattern_in_window :: "classified list \<Rightarrow> string list \<Rightarrow> bool" where
  "check_pattern_in_window window target_pattern =
     (check_pattern_loop window target_pattern 0 = length target_pattern)"

record compound_match =
  pattern_type :: string
  cm_description :: string
  cm_messages :: "message list"
  cm_severity :: nat
  start_time :: "datetime option"
  end_time :: "datetime option"

definition window_match :: "string \<Rightarrow> pattern_def \<Rightarrow> classified list \<Rightarrow> compound_match" where
  \<comment> \<open>the dictionary appended for a window that is not empty\<close>
  "window_match pattern_name pd window =
     \<lparr>pattern_type = pattern_name,
      cm_description = pd_description pd,
      cm_messages = map message_of (filter (\<lambda>w. classifications w \<noteq> []) window),
      cm_severity = length (pd_pattern pd) * 2,
      start_time = msg_timestamp (message_of (hd window)),
      end_time = msg_timestamp (message_of (last window))\<rparr>"

definition build_match ::
  "string \<Rightarrow> pattern_def \<Rightarrow> classified list \<Rightarrow> py_error + compound_match" where
  \<comment> \<open>\<^verbatim>\<open>window[0]\<close> and \<^verbatim>\<open>window[-1]\<close> raise IndexError on an empty window\<close>
  "build_match pattern_name pd window =
     (if window = [] then Inl IndexError else Inr (window_match pattern_name pd window))"

fun scan_offsets ::
  "string \<Rightarrow> pattern_def \<Rightarrow> classified list \<Rightarrow> nat list \<Rightarrow> compound_match list
     \<Rightarrow> py_error + compound_match list" where
  "scan_offsets pattern_name pd mcs [] found = Inr found"
| "scan_offsets pattern_name pd mcs (i # is) found =
     (let window = take (pd_window_messages pd) (drop i mcs) in
      if check_pattern_in_window window (pd_pattern pd)
      then (case build_match pattern_name pd window of
              Inl e \<Rightarrow> Inl e
            | Inr m \<Rightarrow> scan_offsets pattern_name pd mcs is (found @ [m]))
      else scan_offsets pattern_name pd mcs is found)"

definition offsets :: "classified list \<Rightarrow> pattern_def \<Rightarrow> nat list" where
  \<comment> \<open>\<^verbatim>\<open>range(len(message_classifications) - len(target_pattern) + 1)\<close>, empty when
      the bound is not positive\<close>
  "offsets mcs pd = [0 ..< length mcs + 1 - length (pd_pattern pd)]"

fun scan_patterns ::
  "(string \<times> pattern_def) list \<Rightarrow> classified list \<Rightarrow> compound_match list
     \<Rightarrow> py_error + compound_match list" where
  "scan_patterns [] mcs found = Inr found"
| "scan_patterns ((pattern_name, pd) # rest) mcs found =
     (case scan_offsets pattern_name pd mcs (offsets mcs pd) found of
        Inl e \<Rightarrow> Inl e
      | Inr found' \<Rightarrow> scan_patterns rest mcs found')"

definition detect_compound_patterns :: "message list \<Rightarrow> py_error + compound_match list" where
  "detect_compound_patterns msgs =
     (if length msgs < 2 then Inr []
      else scan_patterns DARVO_COMPOUND_PATTERNS (classify_all msgs) [])"

section \<open>Severity\<close>

record category_scores =
  cs_deny :: nat
  cs_attack :: nat
  cs_reverse :: nat
  cs_institutional :: nat
  cs_child_focused :: nat

record severity_acc =
  acc_total :: nat
  acc_scores :: category_scores

definition add_deny :: "nat \<Rightarrow> severity_acc \<Rightarrow> severity_acc" where
  "add_deny score a =
     a\<lparr>acc_scores := (acc_scores a)\<lparr>cs_deny := cs_deny (acc_scores a) + score\<rparr>,
       acc_total := acc_total a + score\<rparr>"

definition add_attack :: "nat \<Rightarrow> severity_acc \<Rightarrow> severity_acc" where
  "add_attack score a =
     a\<lparr>acc_scores := (acc_scores a)\<lparr>cs_attack := cs_attack (acc_scores a) + score\<rparr>,
       acc_total := acc_total a + score\<rparr>"

definition add_reverse :: "nat \<Rightarrow> severity_acc \<Rightarrow> severity_acc" where
  "add_reverse score a =
     a\<lparr>acc_scores := (acc_scores a)\<lparr>cs_reverse := cs_reverse (acc_scores a) + score\<rparr>,
       acc_total := acc_total a + score\<rparr>"

definition add_institutional :: "nat \<Rightarrow> severity_acc \<Rightarrow> severity_acc" where
  "add_institutional score a =
     a\<lparr>acc_scores := (acc_scores a)\<lparr>cs_institutional := cs_institutional (acc_scores a) + score\<rparr>,
       acc_total := acc_total a + score\<rparr>"

definition add_child_focused :: "nat \<Rightarrow> severity_acc \<Rightarrow> severity_acc" where
  "add_child_focused score a =
     a\<lparr>acc_scores := (acc_scores a)\<lparr>cs_child_focused := cs_child_focused (acc_scores a) + score\<rparr>,
       acc_total := acc_total a + score\<rparr>"

fun score_keywords ::
  "(nat \<Rightarrow> severity_acc \<Rightarrow> severity_acc) \<Rightarrow> string \<Rightarrow> nat \<Rightarrow> string list
     \<Rightarrow> severity_acc \<Rightarrow> severity_acc" where
  "score_keywords add txt score [] a = a"
| "score_keywords add txt score (kw # kws) a =
     (if keyword_search kw txt then add score a
      else score_keywords add txt score kws a)"

fun score_subcategories ::
  "(nat \<Rightarrow> severity_acc \<Rightarrow> severity_acc) \<Rightarrow> (string \<Rightarrow> nat) \<Rightarrow> string
     \<Rightarrow> (string \<times> string list) list \<Rightarrow> severity_acc \<Rightarrow> severity_acc" where
  "score_subcategories add weight txt [] a = a"
| "score_subcategories add weight txt ((subcat, keywords) # rest) a =
     score_subcategories add weight txt rest (score_keywords add txt (weight subcat) keywords a)"

definition score_message :: "severity_acc \<Rightarrow> message \<Rightarrow> severity_acc" where
  "score_message a msg =
     (let txt = lower (get_text msg);
          a1 = score_subcategories add_deny (weight_of DARVO_SEVERITY_WEIGHTS_Deny) txt
                 DARVO_INDICATORS_Deny a;
          a2 = score_subcategories add_attack (weight_of DARVO_SEVERITY_WEIGHTS_Attack) txt
                 DARVO_INDICATORS_Attack a1;
          a3 = score_subcategories add_reverse (weight_of DARVO_SEVERITY_WEIGHTS_Reverse) txt
                 DARVO_INDICATORS_Reverse a2;
          a4 = score_subcategories add_institutional
                 (weight_of DARVO_SEVERITY_WEIGHTS_Institutional) txt
                 DARVO_INDICATORS_Institutional a3
      in score_subcategories add_child_focused (\<lambda>_. 5) txt CHILD_FOCUSED_DARVO a4)"

fun score_messages :: "message list \<Rightarrow> severity_acc \<Rightarrow> severity_acc" where
  "score_messages [] a = a"
| "score_messages (msg # msgs) a = score_messages msgs (score_message a msg)"

definition zero_scores :: category_scores where
  "zero_scores =
     \<lparr>cs_deny = 0, cs_attack = 0, cs_reverse = 0, cs_institutional = 0, cs_child_focused = 0\<rparr>"

fun str_nat :: "nat \<Rightarrow> string" where
  \<comment> \<open>the decimal rendering of a score inside the f-strings\<close>
  "str_nat n =
     (if n < 10 then [char_of (48 + n)] else str_nat (n div 10) @ [char_of (48 + n mod 10)])"

definition interpret_severity :: "string \<Rightarrow> nat \<Rightarrow> string" where
  "interpret_severity risk_level score =
     (if risk_level = ''low'' then
        ''Low-level DARVO indicators detected (score: '' @ str_nat score
          @ ''). Some manipulation tactics present but not systematic.''
      else if risk_level = ''medium'' then
        ''Moderate DARVO pattern presence (score: '' @ str_nat score
          @ ''). Multiple manipulation tactics detected across categories.''
      else if risk_level = ''high'' then
        ''Significant DARVO tactics identified (score: '' @ str_nat score
          @ ''). Systematic pattern of deny, attack, and reversal behaviors.''
      else if risk_level = ''critical'' then
        ''Critical DARVO pattern severity (score: '' @ str_nat score
          @ ''). Extensive manipulation tactics including high-risk child-focused patterns.''
      else ''Unable to determine severity.'')"

record severity_assessment =
  total_score :: nat
  sa_category_scores :: "category_scores option"
  risk_level :: string
  sa_interpretation :: string

definition risk_of_total :: "nat \<Rightarrow> string" where
  "risk_of_total score =
     (if score > 50 then ''critical''
      else if score > 30 then ''high''
      else if score > 15 then ''medium''
      else ''low'')"

definition calculate_severity :: "message list \<Rightarrow> severity_assessment" where
  "calculate_severity msgs =
     (let a = score_messages msgs \<lparr>acc_total = 0, acc_scores = zero_scores\<rparr>;
          risk = risk_of_total (acc_total a);
          risk' = (if cs_child_focused (acc_scores a) > 0 then ''critical'' else risk)
      in \<lparr>total_score = acc_total a,
          sa_category_scores = Some (acc_scores a),
          risk_level = risk',
          sa_interpretation = interpret_severity risk' (acc_total a)\<rparr>)"

section \<open>Timeline\<close>

definition DAY :: nat where
  \<comment> \<open>microseconds in a day\<close>
  "DAY = 86400000000"

definition weekday :: "datetime \<Rightarrow> nat" where
  \<comment> \<open>\<^verbatim>\<open>(toordinal() + 6) % 7\<close> with \<^verbatim>\<open>toordinal() = t div DAY + 1\<close>: Monday is 0\<close>
  "weekday t = (t div DAY + 1 + 6) mod 7"

text \<open>
  \<^verbatim>\<open>week_start = timestamp - timedelta(days=timestamp.weekday())\<close> and
  \<^verbatim>\<open>week_key = week_start.strftime('%Y-%m-%d')\<close>.  The key is kept as the day number of
  \<open>week_start\<close> (days since 0001-01-01) that the string renders; on four-digit years
  the order of the strings, used by \<^verbatim>\<open>sorted\<close>, is the order of the day numbers.
\<close>

definition week_key :: "datetime \<Rightarrow> nat" where
  "week_key t = (t - weekday t * DAY) div DAY"

record window_counts =
  deny_count :: nat
  attack_count :: nat
  reverse_count :: nat
  wc_total_score :: nat

definition default_counts :: window_counts where
  "default_counts = \<lparr>deny_count = 0, attack_count = 0, reverse_count = 0, wc_total_score = 0\<rparr>"

type_synonym time_windows = "(nat \<times> window_counts) list"

fun bump :: "time_windows \<Rightarrow> nat \<Rightarrow> (window_counts \<Rightarrow> window_counts) \<Rightarrow> time_windows" where
  \<comment> \<open>\<^verbatim>\<open>time_windows[week_key][field] += 1\<close> on a defaultdict: a new key is added at
      the end with the default counts\<close>
  "bump [] k f = [(k, f default_counts)]"
| "bump ((k', c) # rest) k f =
     (if k' = k then (k', f c) # rest else (k', c) # bump rest k f)"

definition counts_of :: "time_windows \<Rightarrow> nat \<Rightarrow> window_counts" where
  \<comment> \<open>\<^verbatim>\<open>time_windows[key]\<close>\<close>
  "counts_of tw k = (case map_of tw k of Some c \<Rightarrow> c | None \<Rightarrow> default_counts)"

definition timeline_step :: "time_windows \<Rightarrow> message \<Rightarrow> time_windows" where
  "timeline_step tw msg =
     (case msg_timestamp msg of
        None \<Rightarrow> tw
      | Some ts \<Rightarrow>
          (let wk = week_key ts;
               txt = lower (get_text msg);
               tw1 = (if any_keyword DARVO_INDICATORS_Deny txt
                      then bump tw wk (\<lambda>c. c\<lparr>deny_count := deny_count c + 1\<rparr>) else tw);
               tw2 = (if any_keyword DARVO_INDICATORS_Attack txt
                      then bump tw1 wk (\<lambda>c. c\<lparr>attack_count := attack_count c + 1\<rparr>) else tw1)
           in if any_keyword DARVO_INDICATORS_Reverse txt
              then bump tw2 wk (\<lambda>c. c\<lparr>reverse_count := reverse_count c + 1\<rparr>) else tw2))"

fun timeline_loop :: "message list \<Rightarrow> time_windows \<Rightarrow> time_windows" where
  "timeline_loop [] tw = tw"
| "timeline_loop (msg # msgs) tw = timeline_loop msgs (timeline_step tw msg)"

definition window_total :: "window_counts \<Rightarrow> nat" where
  "window_total c = deny_count c + attack_count c + reverse_count c"

text \<open>
  The test \<^verbatim>\<open>late_total > early_total * 1.5\<close> compares an integer with a binary
  floating-point product; for the counts of any message list that fits in memory the
  product is exact, and the test is \<open>2 * late_total > 3 * early_total\<close>.
\<close>

definition escalation_of :: "time_windows \<Rightarrow> bool" where
  "escalation_of tw =
     (let sorted_weeks = sort (map fst tw) in
      if length sorted_weeks \<ge> 2 then
        (let early_total = window_total (counts_of tw (hd sorted_weeks));
             late_total = window_total (counts_of tw (last sorted_weeks))
         in 2 * late_total > 3 * early_total)
      else False)"

datatype timeline_analysis =
  No_Timeline
| Timeline (time_windows: time_windows) (escalation_detected: bool) (total_weeks: nat)

definition timeline_available :: "timeline_analysis \<Rightarrow> bool" where
  "timeline_available t = (case t of No_Timeline \<Rightarrow> False | Timeline _ _ _ \<Rightarrow> True)"

definition analyze_timeline :: "message list \<Rightarrow> timeline_analysis" where
  "analyze_timeline msgs =
     (if msgs = [] \<or> \<not> list_ex (\<lambda>m. msg_timestamp m \<noteq> None) msgs then No_Timeline
      else (let tw = timeline_loop msgs []
            in Timeline tw (escalation_of tw) (length (sort (map fst tw)))))"

section \<open>Forensic summary\<close>

record role_sets =
  messages_with_deny :: "nat set"
  messages_with_attack :: "nat set"
  messages_with_reverse :: "nat set"
  messages_with_child :: "nat set"

fun forensic_loop :: "nat \<Rightarrow> message list \<Rightarrow> role_sets \<Rightarrow> role_sets" where
  \<comment> \<open>\<^verbatim>\<open>for i, msg in enumerate(self.messages)\<close>\<close>
  "forensic_loop i [] s = s"
| "forensic_loop i (msg # msgs) s =
     (let txt = lower (get_text msg);
          s1 = (if any_keyword DARVO_INDICATORS_Deny txt
                then s\<lparr>messages_with_deny := insert i (messages_with_deny s)\<rparr> else s);
          s2 = (if any_keyword DARVO_INDICATORS_Attack txt
                then s1\<lparr>messages_with_attack := insert i (messages_with_attack s1)\<rparr> else s1);
          s3 = (if any_keyword DARVO_INDICATORS_Reverse txt
                then s2\<lparr>messages_with_reverse := insert i (messages_with_reverse s2)\<rparr> else s2);
          s4 = (if any_keyword CHILD_FOCUSED_DARVO txt
                then s3\<lparr>messages_with_child := insert i (messages_with_child s3)\<rparr> else s3)
      in forensic_loop (i + 1) msgs s4)"

definition generate_recommendations :: "bool \<Rightarrow> bool \<Rightarrow> string list" where
  "generate_recommendations full_pattern child_risk =
     (let r1 = (if full_pattern
                then [''Document all communications for legal proceedings'',
                      ''Consider consultation with domestic violence advocate'']
                else []);
          r2 = (if child_risk
                then r1 @
                  [''URGENT: Child-focused manipulation detected - consider immediate protective measures'',
                   ''Document all child-related statements for custody proceedings'',
                   ''Consult with family law attorney regarding parental alienation concerns'']
                else r1)
      in if r2 = [] then [''Continue monitoring communications for patterns''] else r2)"

record forensic_summary =
  analysis_date :: datetime
  total_messages_analyzed :: nat
  deny_present :: bool
  attack_present :: bool
  reverse_present :: bool
  full_darvo_pattern_detected :: bool
  deny_instances :: nat
  attack_instances :: nat
  reverse_instances :: nat
  child_focused_instances :: nat
  high_risk_indicators :: bool
  recommended_actions :: "string list"

text \<open>
  The summary reads the wall clock (\<^verbatim>\<open>datetime.now().isoformat()\<close>); the reading is
  the parameter \<open>now\<close>.
\<close>

definition generate_forensic_summary :: "datetime \<Rightarrow> message list \<Rightarrow> forensic_summary" where
  "generate_forensic_summary now msgs =
     (let s = forensic_loop 0 msgs
                \<lparr>messages_with_deny = {}, messages_with_attack = {},
                 messages_with_reverse = {}, messages_with_child = {}\<rparr>;
          total_deny = card (messages_with_deny s);
          total_attack = card (messages_with_attack s);
          total_reverse = card (messages_with_reverse s);
          total_child_focused = card (messages_with_child s);
          full_pattern_present = (total_deny > 0 \<and> total_attack > 0 \<and> total_reverse > 0)
      in \<lparr>analysis_date = now,
          total_messages_analyzed = length msgs,
          deny_present = (total_deny > 0),
          attack_present = (total_attack > 0),
          reverse_present = (total_reverse > 0),
          full_darvo_pattern_detected = full_pattern_present,
          deny_instances = total_deny,
          attack_instances = total_attack,
          reverse_instances = total_reverse,
          child_focused_instances = total_child_focused,
          high_risk_indicators = (total_child_focused > 0),
          recommended_actions =
            generate_recommendations full_pattern_present (total_child_focused > 0)\<rparr>)"

section \<open>The analysis\<close>

record analysis =
  deny_patterns :: pattern_results
  attack_patterns :: pattern_results
  reverse_patterns :: pattern_results
  institutional_patterns :: pattern_results
  child_focused_patterns :: pattern_results
  compound_patterns :: "compound_match list"
  severity :: severity_assessment
  timeline :: timeline_analysis
  forensic :: forensic_summary

definition analyze_conversation :: "datetime \<Rightarrow> message list \<Rightarrow> py_error + analysis" where
  "analyze_conversation now msgs =
     (case detect_compound_patterns msgs of
        Inl e \<Rightarrow> Inl e
      | Inr compound \<Rightarrow>
          Inr \<lparr>deny_patterns = detect_deny_patterns msgs,
               attack_patterns = detect_attack_patterns msgs,
               reverse_patterns = detect_reverse_patterns msgs,
               institutional_patterns = detect_institutional_patterns msgs,
               child_focused_patterns = detect_child_focused_patterns msgs,
               compound_patterns = compound,
               severity = calculate_severity msgs,
               timeline = analyze_timeline msgs,
               forensic = generate_forensic_summary now msgs\<rparr>)"

definition analyze_document :: "datetime \<Rightarrow> datetime \<Rightarrow> string \<Rightarrow> py_error + analysis" where
  \<comment> \<open>\<open>now_wrap\<close> is the clock reading that stamps the wrapped message\<close>
  "analyze_document now_wrap now txt =
     analyze_conversation now
       [\<lparr>msg_text = Some txt, msg_sender = Some ''Document'',
         msg_timestamp = Some now_wrap, msg_platform = Some ''document''\<rparr>]"

definition empty_analysis :: "datetime \<Rightarrow> analysis" where
  "empty_analysis now =
     \<lparr>deny_patterns = [], attack_patterns = [], reverse_patterns = [],
      institutional_patterns = [], child_focused_patterns = [],
      compound_patterns = [],
      severity = \<lparr>total_score = 0, sa_category_scores = None, risk_level = ''low'',
                  sa_interpretation = ''No data available for analysis.''\<rparr>,
      timeline = No_Timeline,
      forensic = \<lparr>analysis_date = now, total_messages_analyzed = 0,
                  deny_present = False, attack_present = False, reverse_present = False,
                  full_darvo_pattern_detected = False,
                  deny_instances = 0, attack_instances = 0, reverse_instances = 0,
                  child_focused_instances = 0, high_risk_indicators = False,
                  recommended_actions = []\<rparr>\<rparr>"

text \<open>
  \<^verbatim>\<open>DARVOAnalyzer(messages, text).analyze_darvo_patterns()\<close>.  The constructor
  replaces a missing or empty argument by \<^verbatim>\<open>[]\<close> and \<^verbatim>\<open>""\<close>.  The two clock
  readings a run can make are parameters: \<open>now_wrap\<close> in \<^verbatim>\<open>_analyze_document\<close>,
  \<open>now\<close> for the \<^verbatim>\<open>analysis_date\<close>.
\<close>

definition analyze_darvo_patterns ::
  "datetime \<Rightarrow> datetime \<Rightarrow> message list \<Rightarrow> string \<Rightarrow> py_error + analysis" where
  "analyze_darvo_patterns now_wrap now msgs txt =
     (if msgs \<noteq> [] then analyze_conversation now msgs
      else if txt \<noteq> [] then analyze_document now_wrap now txt
      else Inr (empty_analysis now))"

section \<open>The fuzzy pattern engine\<close>

text \<open>
  \<^verbatim>\<open>AbusePatternEngine.fuzzy_match\<close> calls the standard library:
  \<^verbatim>\<open>SequenceMatcher(None, text.lower(), keyword.lower()).ratio() >= threshold\<close>.
  The matcher is modelled on the slices it works on: \<open>a\<close> and \<open>b\<close> below are the
  parts \<^verbatim>\<open>a[alo:ahi]\<close> and \<^verbatim>\<open>b[blo:bhi]\<close>, a block is
  \<open>(besti, bestj, bestsize)\<close> relative to them.

  With no junk function, the only elements left out of the index \<^verbatim>\<open>b2j\<close> are the
  popular ones: for a second sequence of 200 elements or more, those that occur more
  than \<open>n div 100 + 1\<close> times.
\<close>

definition popular :: "string \<Rightarrow> char set" where
  "popular b =
     (if length b \<ge> 200 then {c \<in> set b. count_list b c > length b div 100 + 1} else {})"

text \<open>
  The table \<^verbatim>\<open>j2len\<close> holds, for the current \<open>i\<close> and each \<open>j\<close>, the length of the
  run of equal indexed elements that ends at \<open>(i, j)\<close>; it is computed here from the
  reversed prefixes that end at \<open>i\<close> and \<open>j\<close>.
\<close>

fun common_run :: "char set \<Rightarrow> string \<Rightarrow> string \<Rightarrow> nat" where
  "common_run P (x # xs) (y # ys) = (if x = y \<and> y \<notin> P then Suc (common_run P xs ys) else 0)"
| "common_run P xs ys = 0"

type_synonym block = "nat \<times> nat \<times> nat"

fun scan_j :: "char set \<Rightarrow> string \<Rightarrow> nat \<Rightarrow> string \<Rightarrow> string \<Rightarrow> nat \<Rightarrow> block \<Rightarrow> block" where
  "scan_j P ra i rb [] j best = best"
| "scan_j P ra i rb (y # ys) j best =
     (let k = common_run P ra (y # rb) in
      scan_j P ra i (y # rb) ys (j + 1)
        (if k > snd (snd best) then (i + 1 - k, j + 1 - k, k) else best))"

fun scan_i :: "char set \<Rightarrow> string \<Rightarrow> string \<Rightarrow> nat \<Rightarrow> string \<Rightarrow> block \<Rightarrow> block" where
  "scan_i P ra [] i b best = best"
| "scan_i P ra (x # xs) i b best =
     scan_i P (x # ra) xs (i + 1) b (scan_j P (x # ra) i [] b 0 best)"

fun extend_left :: "string \<Rightarrow> string \<Rightarrow> block \<Rightarrow> block" where
  "extend_left a b (i, j, k) =
     (if i > 0 \<and> j > 0 \<and> a ! (i - 1) = b ! (j - 1)
      then extend_left a b (i - 1, j - 1, k + 1) else (i, j, k))"

function extend_right :: "string \<Rightarrow> string \<Rightarrow> block \<Rightarrow> block" where
  "extend_right a b (i, j, k) =
     (if i + k < length a \<and> j + k < length b \<and> a ! (i + k) = b ! (j + k)
      then extend_right a b (i, j, k + 1) else (i, j, k))"
  by pat_completeness auto
termination
  by (relation "measure (\<lambda>(a, b, i, j, k). length a - (i + k))") auto

definition find_longest_match :: "char set \<Rightarrow> string \<Rightarrow> string \<Rightarrow> block" where
  \<comment> \<open>the two further loops of the source extend over junk elements, of which there
      are none\<close>
  "find_longest_match P a b = extend_right a b (extend_left a b (scan_i P [] a 0 b (0, 0, 0)))"

text \<open>
  The block that \<^verbatim>\<open>find_longest_match\<close> returns lies inside both slices; the recursion of
  \<^verbatim>\<open>get_matching_blocks\<close> terminates for that reason.
\<close>

definition block_within :: "nat \<Rightarrow> nat \<Rightarrow> block \<Rightarrow> bool" where
  "block_within la lb blk = (case blk of (i, j, k) \<Rightarrow> i + k \<le> la \<and> j + k \<le> lb)"

lemma common_run_le: "common_run P xs ys \<le> length xs \<and> common_run P xs ys \<le> length ys"
  by (induction P xs ys rule: common_run.induct) auto

lemma scan_j_within:
  "block_within la lb best \<Longrightarrow> length ra = i + 1 \<Longrightarrow> i < la \<Longrightarrow> length rb = j
     \<Longrightarrow> j + length ys = lb \<Longrightarrow> block_within la lb (scan_j P ra i rb ys j best)"
proof (induction ys arbitrary: rb j best)
  case Nil
  then show ?case by simp
next
  case (Cons y ys)
  let ?k = "common_run P ra (y # rb)"
  have k: "?k \<le> i + 1" "?k \<le> j + 1"
    using common_run_le [of P ra "y # rb"] Cons.prems by auto
  have "block_within la lb (if ?k > snd (snd best) then (i + 1 - ?k, j + 1 - ?k, ?k) else best)"
    using Cons.prems k by (auto simp: block_within_def)
  then show ?case
    using Cons.prems by (simp add: Let_def Cons.IH del: common_run.simps)
qed

lemma scan_i_within:
  "block_within la lb best \<Longrightarrow> length ra = i \<Longrightarrow> i + length xs = la \<Longrightarrow> length b = lb
     \<Longrightarrow> block_within la lb (scan_i P ra xs i b best)"
proof (induction xs arbitrary: ra i best)
  case Nil
  then show ?case by simp
next
  case (Cons x xs)
  have "block_within la lb (scan_j P (x # ra) i [] b 0 best)"
    using Cons.prems by (intro scan_j_within) auto
  then show ?case
    using Cons.prems by (simp add: Cons.IH)
qed

lemma extend_left_within:
  "block_within la lb blk \<Longrightarrow> block_within la lb (extend_left a b blk)"
proof (induction a b blk rule: extend_left.induct)
  case (1 a b i j k)
  then show ?case by (auto simp: block_within_def)
qed

lemma extend_right_within:
  "block_within (length a) (length b) blk \<Longrightarrow> block_within (length a) (length b) (extend_right a b blk)"
proof (induction a b blk rule: extend_right.induct)
  case (1 a b i j k)
  then show ?case by (auto simp: block_within_def)
qed

lemma find_longest_match_within:
  "block_within (length a) (length b) (find_longest_match P a b)"
  unfolding find_longest_match_def
  by (intro extend_right_within extend_left_within scan_i_within) (auto simp: block_within_def)

lemma find_longest_match_bounds:
  "find_longest_match P a b = (i, j, k) \<Longrightarrow> i + k \<le> length a \<and> j + k \<le> length b"
  using find_longest_match_within [of a b P] by (simp add: block_within_def)

text \<open>
  \<^verbatim>\<open>get_matching_blocks\<close> splits at the longest block and goes on to the left and to
  the right of it; \<^verbatim>\<open>ratio\<close> uses only the sum of the block sizes.
\<close>

function matched_total :: "char set \<Rightarrow> string \<Rightarrow> string \<Rightarrow> nat" where
  "matched_total P a b =
     (case find_longest_match P a b of
        (i, j, k) \<Rightarrow>
          if k = 0 then 0
          else k
            + (if 0 < i \<and> 0 < j then matched_total P (take i a) (take j b) else 0)
            + (if i + k < length a \<and> j + k < length b
               then matched_total P (drop (i + k) a) (drop (j + k) b) else 0))"
  by pat_completeness auto
termination
  apply (relation "measure (\<lambda>(P, a, b). length a + length b)")
    apply simp
   apply (auto dest!: find_longest_match_bounds [OF sym])
  done


text \<open>
  \<^verbatim>\<open>ratio() >= 0.85\<close>, with \<^verbatim>\<open>ratio() = 2.0 * matches / length\<close> and the value 1.0 for
  two empty sequences.  Below \<open>10^14\<close> characters the floating-point quotient is at least
  the floating-point number nearest to 0.85 exactly when \<open>2 * matches / length \<ge> 17 / 20\<close>.
\<close>

definition ratio_reaches_threshold :: "string \<Rightarrow> string \<Rightarrow> bool" where
  "ratio_reaches_threshold a b =
     (let matches = matched_total (popular b) a b; len = length a + length b
      in if len = 0 then True else 17 * len \<le> 40 * matches)"

definition fuzzy_match :: "string \<Rightarrow> string \<Rightarrow> bool" where
  \<comment> \<open>with the default threshold 0.85, the only one the callers use\<close>
  "fuzzy_match txt keyword = ratio_reaches_threshold (lower txt) (lower keyword)"

fun contains :: "string \<Rightarrow> string \<Rightarrow> bool" where
  \<comment> \<open>\<^verbatim>\<open>needle in haystack\<close>\<close>
  "contains needle [] = (needle = [])"
| "contains needle (h # hs) = (prefix needle (h # hs) \<or> contains needle hs)"

definition synonym_match :: "(string \<rightharpoonup> string list) \<Rightarrow> string \<Rightarrow> string \<Rightarrow> bool" where
  "synonym_match synonyms txt keyword =
     ((case synonyms keyword of
         Some syns \<Rightarrow> list_ex (\<lambda>syn. contains syn (lower txt)) syns
       | None \<Rightarrow> False)
      \<or> contains keyword (lower txt))"

fun setdefault_append :: "(string \<times> string list) list \<Rightarrow> string \<Rightarrow> string \<Rightarrow> (string \<times> string list) list" where
  \<comment> \<open>\<^verbatim>\<open>results.setdefault(category, []).append(kw)\<close>\<close>
  "setdefault_append [] category kw = [(category, [kw])]"
| "setdefault_append ((c, kws) # rest) category kw =
     (if c = category then (c, kws @ [kw]) # rest
      else (c, kws) # setdefault_append rest category kw)"

fun analyze_keywords ::
  "(string \<rightharpoonup> string list) \<Rightarrow> string \<Rightarrow> string \<Rightarrow> string list
     \<Rightarrow> (string \<times> string list) list \<Rightarrow> (string \<times> string list) list" where
  "analyze_keywords synonyms txt category [] results = results"
| "analyze_keywords synonyms txt category (kw # kws) results =
     analyze_keywords synonyms txt category kws
       (if synonym_match synonyms txt kw \<or> fuzzy_match txt kw
        then setdefault_append results category kw else results)"

fun analyze_categories ::
  "(string \<rightharpoonup> string list) \<Rightarrow> string \<Rightarrow> (string \<times> string list) list
     \<Rightarrow> (string \<times> string list) list \<Rightarrow> (string \<times> string list) list" where
  "analyze_categories synonyms txt [] results = results"
| "analyze_categories synonyms txt ((category, keywords) # rest) results =
     analyze_categories synonyms txt rest
       (analyze_keywords synonyms txt category keywords results)"

definition analyze_message ::
  "(string \<times> string list) list \<Rightarrow> (string \<rightharpoonup> string list) \<Rightarrow> message
     \<Rightarrow> (string \<times> string list) list" where
  "analyze_message indicators synonyms msg =
     analyze_categories synonyms (lower (get_text msg)) indicators []"

text \<open>
  The fuzzy match as the specification words it, for comparison: the ratio is taken
  between the keyword and every window of the text that is as long as the keyword, and
  one window that reaches 0.85 is a hit.
\<close>

definition fuzzy_window_hit :: "string \<Rightarrow> string \<Rightarrow> bool" where
  "fuzzy_window_hit txt keyword =
     (let a = lower txt; b = lower keyword; n = length b
      in list_ex (\<lambda>i. ratio_reaches_threshold (take n (drop i a)) b) [0 ..< length a + 1 - n])"

section \<open>The escalation analysis of the conversation analyzer\<close>

text \<open>
  \<^verbatim>\<open>ConversationAnalyzer.analyze_escalation_patterns\<close> works on \<^verbatim>\<open>self.messages\<close>,
  which the constructor has sorted by timestamp (a message without timestamp counts as
  the earliest instant).  It searches with \<^verbatim>\<open>re.IGNORECASE\<close> in the text as it is; on
  the code points 0 to 255 two characters agree up to case exactly when \<^verbatim>\<open>lower\<close> makes
  them equal, so the search is the one above on the lowered text.
\<close>

definition ABUSE_INDICATORS_Threats :: "string list" where
  \<comment> \<open>the list under the key \<^verbatim>\<open>Threats / Intimidation\<close>; adjacent string literals without a comma
      between them are one keyword\<close>
  "ABUSE_INDICATORS_Threats =
    [''kill you'', ''kill myself'', ''take the kids'', ''hurt the kids'',
     ''hurt your family'', ''destroy'', ''burn'', ''break'', ''smash'', ''hit'', ''punch'',
     ''slap'', ''kick'', ''choke'', ''strangle'', ''weapon'', ''gun'', ''knife'',
     ''watch your back'', ''regret it'', ''make you pay'', ''call the police'',
     ''report you'', ''deport'', ''ruin your reputation'', ''out you'', ''tell everyone'',
     ''making you afraid'', ''threatening to hurt you'', ''displaying weapons'',
     ''destroying property'', ''abusing pets'', ''stalking'', ''terrorizing'', ''menacing'',
     ''harassment'', ''intimidation'', ''dox'', ''swat'', ''cancel'', ''expose'', ''leak'',
     ''dragthreaten to leave'', ''threaten to harm pets'', ''threaten to ruin career'',
     ''threaten to expose secrets'', ''threaten to call cps'', ''threaten to get custody'',
     ''threaten to hurt themselves'', ''threaten to hurt you'',
     ''threaten to make you homeless'', ''threaten to get you fired'',
     ''threaten to ruin your life'']"

definition ABUSE_INDICATORS_Emotional :: "string list" where
  \<comment> \<open>the list under the key \<^verbatim>\<open>Emotional Abuse / Degradation\<close>; adjacent string literals without a comma
      between them are one keyword\<close>
  "ABUSE_INDICATORS_Emotional =
    [''crazy'', ''stupid'', ''worthless'', ''fat'', ''ugly'', ''useless'',
     ''nobody else would want you'', ''lucky to have me'', ''it's all your fault'',
     ''you make me do this'', ''too sensitive'', ''can't take a joke'', ''overreacting'',
     ''imagining things'', ''liar'', ''pathetic'', ''disgusting'', ''whore'', ''slut'',
     ''cheat'', ''unfaithful'', ''brainwashed'', ''mental'', ''psycho'', ''bitch'',
     ''shut up'', ''idiot'', ''incompetent'', ''failure'', ''put-downs'', ''name-calling'',
     ''humiliation'', ''making you feel guilty'', ''playing mind games'',
     ''making you feel crazy'', ''minimizing abuse'', ''verbal abuse'', ''emotional harm'',
     ''demeaning language'', ''simp'', ''pick me'', ''trash'', ''clown'', ''salty'',
     ''flexing'', ''ratioedgaslight'', ''crazy-making'', ''you're imagining things'',
     ''no one believes you'', ''you're paranoid'', ''you're dramatic'',
     ''always your fault'', ''never good enough'', ''hopeless'', ''unlovable'',
     ''nobody cares'', ''everyone hates you'', ''you're a burden'', ''crybaby'',
     ''overly emotional'', ''can't trust you'', ''you're broken'', ''damaged'',
     ''always wrong'', ''never right'']"
definition WEEK :: nat where
  \<comment> \<open>\<^verbatim>\<open>timedelta(days=7)\<close> in microseconds\<close>
  "WEEK = 7 * DAY"

definition DT_MAX :: nat where
  \<comment> \<open>\<^verbatim>\<open>datetime.max\<close>, 9999-12-31 23:59:59.999999\<close>
  "DT_MAX = 3652059 * DAY - 1"

definition dt_add :: "datetime \<Rightarrow> nat \<Rightarrow> py_error + datetime" where
  \<comment> \<open>\<^verbatim>\<open>datetime + timedelta\<close> raises OverflowError beyond \<^verbatim>\<open>datetime.max\<close>\<close>
  "dt_add t d = (if t + d > DT_MAX then Inl OverflowError else Inr (t + d))"

function advance_window :: "datetime \<Rightarrow> datetime \<Rightarrow> py_error + datetime" where
  \<comment> \<open>\<^verbatim>\<open>while msg['timestamp'] > current_window_start + window_size:
      current_window_start += window_size\<close>\<close>
  "advance_window ts current_window_start =
     (case dt_add current_window_start WEEK of
        Inl e \<Rightarrow> Inl e
      | Inr next_start \<Rightarrow>
          if ts > next_start then advance_window ts next_start
          else Inr current_window_start)"
  by pat_completeness auto
termination
  by (relation "measure (\<lambda>(ts, s). ts - s)")
    (auto simp: dt_add_def WEEK_def DAY_def split: if_splits)

fun count_keywords :: "string list \<Rightarrow> string \<Rightarrow> nat" where
  \<comment> \<open>how often the inner loop adds 1: once for every keyword of the list that is found\<close>
  "count_keywords [] txt = 0"
| "count_keywords (kw # kws) txt =
     (if re_search_from False (lower kw) (lower txt) then 1 else 0) + count_keywords kws txt"

record escalation_counts =
  threats_count :: nat
  emotional_count :: nat

type_synonym window_counts_map = "(datetime \<times> escalation_counts) list"

fun add_counts ::
  "window_counts_map \<Rightarrow> datetime \<Rightarrow> nat \<Rightarrow> nat \<Rightarrow> window_counts_map" where
  \<comment> \<open>\<^verbatim>\<open>window_counts[current_window_start][category] += 1\<close>, run \<open>t\<close> and \<open>e\<close> times for
      the two categories; a window that gets nothing is not created\<close>
  "add_counts [] w t e =
     (if t = 0 \<and> e = 0 then [] else [(w, \<lparr>threats_count = t, emotional_count = e\<rparr>)])"
| "add_counts ((w', c) # rest) w t e =
     (if w' = w
      then (w', c\<lparr>threats_count := threats_count c + t,
                  emotional_count := emotional_count c + e\<rparr>) # rest
      else (w', c) # add_counts rest w t e)"

fun escalation_loop ::
  "message list \<Rightarrow> datetime \<Rightarrow> window_counts_map \<Rightarrow> py_error + window_counts_map" where
  "escalation_loop [] current_window_start wc = Inr wc"
| "escalation_loop (msg # msgs) current_window_start wc =
     (case msg_timestamp msg of
        None \<Rightarrow> escalation_loop msgs current_window_start wc
      | Some ts \<Rightarrow>
          (case advance_window ts current_window_start of
             Inl e \<Rightarrow> Inl e
           | Inr start \<Rightarrow>
               escalation_loop msgs start
                 (add_counts wc start
                    (count_keywords ABUSE_INDICATORS_Threats (get_text msg))
                    (count_keywords ABUSE_INDICATORS_Emotional (get_text msg)))))"

record escalation_detail =
  ed_category :: string
  ed_trend :: string
  ed_windows :: nat
  ed_initial_count :: nat
  ed_final_count :: nat

record escalation_result =
  er_escalation_detected :: bool
  er_details :: "escalation_detail list"

definition counts_at :: "window_counts_map \<Rightarrow> datetime \<Rightarrow> escalation_counts" where
  \<comment> \<open>\<^verbatim>\<open>window_counts[w]\<close>, a missing category reads as 0\<close>
  "counts_at wc w =
     (case map_of wc w of Some c \<Rightarrow> c | None \<Rightarrow> \<lparr>threats_count = 0, emotional_count = 0\<rparr>)"

definition category_detail :: "string \<Rightarrow> nat list \<Rightarrow> escalation_detail list" where
  "category_detail category counts =
     (if length counts \<ge> 2 \<and> last counts > hd counts
      then [\<lparr>ed_category = category, ed_trend = ''increasing'', ed_windows = length counts,
             ed_initial_count = hd counts, ed_final_count = last counts\<rparr>]
      else [])"

definition analyze_escalation_patterns :: "message list \<Rightarrow> py_error + escalation_result" where
  "analyze_escalation_patterns msgs =
     (case msgs of
        [] \<Rightarrow> Inr \<lparr>er_escalation_detected = False, er_details = []\<rparr>
      | first # _ \<Rightarrow>
          (case msg_timestamp first of
             None \<Rightarrow> Inr \<lparr>er_escalation_detected = False, er_details = []\<rparr>
           | Some first_ts \<Rightarrow>
               (case escalation_loop msgs first_ts [] of
                  Inl e \<Rightarrow> Inl e
                | Inr wc \<Rightarrow>
                    (let ws = sort (map fst wc);
                         details =
                           category_detail ''Threats / Intimidation''
                             (map (\<lambda>w. threats_count (counts_at wc w)) ws)
                           @ category_detail ''Emotional Abuse / Degradation''
                             (map (\<lambda>w. emotional_count (counts_at wc w)) ws)
                     in Inr \<lparr>er_escalation_detected = (details \<noteq> []),
                             er_details = details\<rparr>))))"

section \<open>Notions used to state the properties\<close>

definition with_analysis_date :: "datetime \<Rightarrow> analysis \<Rightarrow> analysis" where
  "with_analysis_date d r = r\<lparr>forensic := (forensic r)\<lparr>analysis_date := d\<rparr>\<rparr>"

definition subcategory_matches :: "string list \<Rightarrow> message \<Rightarrow> bool" where
  \<comment> \<open>some keyword of the subcategory is found in the message\<close>
  "subcategory_matches kws msg = list_ex (\<lambda>kw. keyword_search kw (lower (get_text msg))) kws"

definition first_keyword :: "string list \<Rightarrow> message \<Rightarrow> string option" where
  \<comment> \<open>the first keyword, in the order of the table, that is found in the message\<close>
  "first_keyword kws msg = find (\<lambda>kw. keyword_search kw (lower (get_text msg))) kws"

definition message_score :: "(string \<Rightarrow> nat) \<Rightarrow> (string \<times> string list) list \<Rightarrow> message \<Rightarrow> nat" where
  \<comment> \<open>one weight for every subcategory of the table that matches the message\<close>
  "message_score weight table msg =
     (\<Sum>(subcat, kws) \<leftarrow> table. if subcategory_matches kws msg then weight subcat else 0)"

definition one_result_per_message ::
  "(message \<Rightarrow> string \<Rightarrow> string \<Rightarrow> match_instance) \<Rightarrow> (string \<times> string list) list
     \<Rightarrow> message list \<Rightarrow> pattern_results \<Rightarrow> bool" where
  \<comment> \<open>every subcategory of the table holds exactly one instance for each message that
      matches it, in message order, made for the first keyword found\<close>
  "one_result_per_message mk table msgs results =
     list_all (\<lambda>(subcat, kws).
        map_of results subcat =
          Some \<lparr>hit_count = length (filter (subcategory_matches kws) msgs),
                instances = map (\<lambda>msg. mk msg subcat (the (first_keyword kws msg)))
                              (filter (subcategory_matches kws) msgs)\<rparr>) table"

definition deny_score :: "message \<Rightarrow> nat" where
  "deny_score = message_score (weight_of DARVO_SEVERITY_WEIGHTS_Deny) DARVO_INDICATORS_Deny"

definition attack_score :: "message \<Rightarrow> nat" where
  "attack_score = message_score (weight_of DARVO_SEVERITY_WEIGHTS_Attack) DARVO_INDICATORS_Attack"

definition reverse_score :: "message \<Rightarrow> nat" where
  "reverse_score =
     message_score (weight_of DARVO_SEVERITY_WEIGHTS_Reverse) DARVO_INDICATORS_Reverse"

definition institutional_score :: "message \<Rightarrow> nat" where
  "institutional_score =
     message_score (weight_of DARVO_SEVERITY_WEIGHTS_Institutional)
       DARVO_INDICATORS_Institutional"

definition child_score :: "message \<Rightarrow> nat" where
  "child_score = message_score (\<lambda>_. 5) CHILD_FOCUSED_DARVO"

definition text_message :: "string \<Rightarrow> message" where
  \<comment> \<open>the message \<^verbatim>\<open>{'text': t}\<close>\<close>
  "text_message t =
     \<lparr>msg_text = Some t, msg_sender = None, msg_timestamp = None, msg_platform = None\<rparr>"

definition timed_message :: "datetime \<Rightarrow> string \<Rightarrow> message" where
  \<comment> \<open>the message \<^verbatim>\<open>{'text': t, 'timestamp': ts}\<close>\<close>
  "timed_message ts t =
     \<lparr>msg_text = Some t, msg_sender = None, msg_timestamp = Some ts, msg_platform = None\<rparr>"

definition has_role :: "string \<Rightarrow> classified \<Rightarrow> bool" where
  "has_role role w = (role \<in> set (classifications w))"

definition roles_in_order :: "string list \<Rightarrow> classified list \<Rightarrow> bool" where
  \<comment> \<open>the roles of the pattern appear in this order in the window: there are as many
      messages of the window, in window order and not necessarily adjacent, each with
      the role at its place\<close>
  "roles_in_order target window = list_ex (list_all2 has_role target) (subseqs window)"

definition window_at :: "pattern_def \<Rightarrow> classified list \<Rightarrow> nat \<Rightarrow> classified list" where
  \<comment> \<open>the slice \<^verbatim>\<open>message_classifications[i:i + window_size]\<close>\<close>
  "window_at pd mcs i = take (pd_window_messages pd) (drop i mcs)"

definition pattern_matches :: "string \<Rightarrow> pattern_def \<Rightarrow> classified list \<Rightarrow> compound_match list" where
  \<comment> \<open>one match for every start offset whose window holds the roles in order\<close>
  "pattern_matches pattern_name pd mcs =
     map (\<lambda>i. window_match pattern_name pd (window_at pd mcs i))
       (filter (\<lambda>i. roles_in_order (pd_pattern pd) (window_at pd mcs i)) [0 ..< length mcs])"

definition deny_message :: "message \<Rightarrow> bool" where
  "deny_message msg = any_keyword DARVO_INDICATORS_Deny (lower (get_text msg))"

definition attack_message :: "message \<Rightarrow> bool" where
  "attack_message msg = any_keyword DARVO_INDICATORS_Attack (lower (get_text msg))"

definition reverse_message :: "message \<Rightarrow> bool" where
  "reverse_message msg = any_keyword DARVO_INDICATORS_Reverse (lower (get_text msg))"

definition child_message :: "message \<Rightarrow> bool" where
  "child_message msg = any_keyword CHILD_FOCUSED_DARVO (lower (get_text msg))"







section \<open>Evaluation of the text primitives\<close>

lemma lower_char_Char:
  "lower_char (Char b0 b1 b2 b3 b4 b5 b6 b7) =
     (if b6 \<and> \<not> b5 \<and>
         (if b7 then \<not> (b0 \<and> b1 \<and> b2 \<and> b4) \<or> \<not> b3 \<and> \<not> (b0 \<and> b1 \<and> b2 \<and> b4 \<and> \<not> b3)
          else (b0 \<or> b1 \<or> b2 \<or> b3 \<or> b4) \<and> \<not> (b4 \<and> b3 \<and> (b2 \<or> (b1 \<and> b0))))
      then Char b0 b1 b2 b3 b4 True b6 b7 else Char b0 b1 b2 b3 b4 b5 b6 b7)"
  by (cases b0; cases b1; cases b2; cases b3; cases b4; cases b5; cases b6; cases b7;
      simp add: lower_char_def char_of_def bit_Suc_0_iff)

lemma is_word_char_Char:
  "is_word_char (Char b0 b1 b2 b3 b4 b5 b6 b7) =
     (if b7 then
        (if b6 then \<not> (b4 \<and> \<not> b3 \<and> b2 \<and> b1 \<and> b0)
         else b5 \<and>
           (if b4 then
              (\<not> b3 \<and> \<not> b2 \<and> b1) \<or> (\<not> b3 \<and> b2 \<and> \<not> b1 \<and> b0)
              \<or> (b3 \<and> \<not> b2 \<and> (b1 \<noteq> b0)) \<or> (b3 \<and> b2 \<and> \<not> (b1 \<and> b0))
            else b3 \<and> \<not> b2 \<and> b1 \<and> \<not> b0))
      else
        (if b6 then
           (if b4 then \<not> (b3 \<and> (b2 \<or> (b1 \<and> b0))) \<or> (\<not> b5 \<and> b3 \<and> b2 \<and> b1 \<and> b0)
            else b0 \<or> b1 \<or> b2 \<or> b3)
         else b5 \<and> b4 \<and> \<not> (b3 \<and> (b2 \<or> b1))))"
  by (cases b0; cases b1; cases b2; cases b3; cases b4; cases b5; cases b6; cases b7;
      simp add: is_word_char_def)

lemma match_literal_step:
  "match_literal prev (k # ks) (c # cs) =
     (if k = c then match_literal (is_word_char c) ks cs else False)"
  by simp

lemma match_at_step:
  "match_at prev kw rest =
     (if prev = next_is_word rest then False else match_literal prev kw rest)"
  by (simp add: match_at_def)

lemma re_search_from_step:
  "re_search_from prev kw (c # cs) =
     (if match_at prev kw (c # cs) then True else re_search_from (is_word_char c) kw cs)"
  by simp

lemmas text_eval =
  keyword_search_def lower_def list.map lower_char_Char is_word_char_Char
  match_literal.simps(1,2) match_literal_step match_at_step
  re_search_from.simps(1) re_search_from_step next_is_word.simps
  char.inject list.inject list.distinct simp_thms if_True if_False

lemmas table_eval =
  any_keyword_def list_ex_Nil_iff list_ex_Cons_iff concat.simps append.simps snd_conv

lemmas record_eval =
  message.simps get_text_def get_sender_def option.case new_instance_def

lemma roles_toxic:
  "any_keyword DARVO_INDICATORS_Deny ''toxic'' = False"
  "any_keyword DARVO_INDICATORS_Attack ''toxic'' = True"
  "any_keyword DARVO_INDICATORS_Reverse ''toxic'' = False"
  "any_keyword CHILD_FOCUSED_DARVO ''toxic'' = False"
  by (simp only: DARVO_INDICATORS_Deny_def DARVO_INDICATORS_Attack_def
      DARVO_INDICATORS_Reverse_def CHILD_FOCUSED_DARVO_def table_eval text_eval)+

lemma roles_prove_it:
  "any_keyword DARVO_INDICATORS_Deny ''prove it'' = True"
  "any_keyword DARVO_INDICATORS_Attack ''prove it'' = False"
  "any_keyword DARVO_INDICATORS_Reverse ''prove it'' = False"
  "any_keyword CHILD_FOCUSED_DARVO ''prove it'' = False"
  by (simp only: DARVO_INDICATORS_Deny_def DARVO_INDICATORS_Attack_def
      DARVO_INDICATORS_Reverse_def CHILD_FOCUSED_DARVO_def table_eval text_eval)+

lemma roles_we_both:
  "any_keyword DARVO_INDICATORS_Deny ''we both'' = False"
  "any_keyword DARVO_INDICATORS_Attack ''we both'' = False"
  "any_keyword DARVO_INDICATORS_Reverse ''we both'' = True"
  "any_keyword CHILD_FOCUSED_DARVO ''we both'' = False"
  by (simp only: DARVO_INDICATORS_Deny_def DARVO_INDICATORS_Attack_def
      DARVO_INDICATORS_Reverse_def CHILD_FOCUSED_DARVO_def table_eval text_eval)+

lemma roles_ok:
  "any_keyword DARVO_INDICATORS_Deny ''ok'' = False"
  "any_keyword DARVO_INDICATORS_Attack ''ok'' = False"
  "any_keyword DARVO_INDICATORS_Reverse ''ok'' = False"
  "any_keyword CHILD_FOCUSED_DARVO ''ok'' = False"
  by (simp only: DARVO_INDICATORS_Deny_def DARVO_INDICATORS_Attack_def
      DARVO_INDICATORS_Reverse_def CHILD_FOCUSED_DARVO_def table_eval text_eval)+

section \<open>Empty input, document mode and the clock\<close>

lemma detect_compound_patterns_short:
  "length msgs < 2 \<Longrightarrow> detect_compound_patterns msgs = Inr []"
  by (simp add: detect_compound_patterns_def)

text \<open>
  C9.  The analysis of an empty message list without document text does not raise: it
  returns the zero-valued structure, with empty pattern maps, no compound pattern, total
  score 0, risk level low, no DARVO component present and all instance counts 0.
\<close>

theorem empty_input_zero_result:
  "\<exists>r. analyze_darvo_patterns now_wrap now [] [] = Inr r
      \<and> deny_patterns r = [] \<and> attack_patterns r = [] \<and> reverse_patterns r = []
      \<and> institutional_patterns r = [] \<and> child_focused_patterns r = []
      \<and> compound_patterns r = []
      \<and> total_score (severity r) = 0 \<and> sa_category_scores (severity r) = None
      \<and> risk_level (severity r) = ''low''
      \<and> timeline r = No_Timeline
      \<and> total_messages_analyzed (forensic r) = 0
      \<and> \<not> deny_present (forensic r) \<and> \<not> attack_present (forensic r)
      \<and> \<not> reverse_present (forensic r)
      \<and> \<not> full_darvo_pattern_detected (forensic r)
      \<and> deny_instances (forensic r) = 0 \<and> attack_instances (forensic r) = 0
      \<and> reverse_instances (forensic r) = 0 \<and> child_focused_instances (forensic r) = 0
      \<and> \<not> high_risk_indicators (forensic r) \<and> recommended_actions (forensic r) = []"
  by (simp add: analyze_darvo_patterns_def empty_analysis_def)

text \<open>
  C10.  With an empty message list and a non-empty document text, the analysis is the
  conversation analysis of the single message that wraps the text, with sender
  Document, platform document and the clock reading as timestamp; it does not raise
  and its timeline is available.
\<close>

theorem document_mode_single_message:
  assumes "txt \<noteq> []"
  shows "analyze_darvo_patterns now_wrap now [] txt =
           analyze_conversation now
             [\<lparr>msg_text = Some txt, msg_sender = Some ''Document'',
               msg_timestamp = Some now_wrap, msg_platform = Some ''document''\<rparr>]
         \<and> (\<exists>r. analyze_darvo_patterns now_wrap now [] txt = Inr r
                \<and> timeline_available (timeline r)
                \<and> total_messages_analyzed (forensic r) = 1)"
  using assms
  by (simp add: analyze_darvo_patterns_def analyze_document_def analyze_conversation_def
      detect_compound_patterns_short analyze_timeline_def timeline_available_def
      generate_forensic_summary_def Let_def)

theorem document_mode_single_message_witness:
  "''relax'' \<noteq> [] \<and>
   (\<exists>r. analyze_darvo_patterns 5 7 [] ''relax'' = Inr r \<and> timeline_available (timeline r))"
proof -
  have h: "''relax'' \<noteq> []" by simp
  from document_mode_single_message [OF h, of 5 7]
  obtain r where "analyze_darvo_patterns 5 7 [] ''relax'' = Inr r"
    and "timeline_available (timeline r)" by blast
  with h show ?thesis by blast
qed

section \<open>Dependence on the clock\<close>

lemma forensic_date: "analysis_date (generate_forensic_summary now msgs) = now"
  by (simp add: generate_forensic_summary_def Let_def)

lemma forensic_redate:
  "(generate_forensic_summary now msgs)\<lparr>analysis_date := d\<rparr> = generate_forensic_summary d msgs"
  by (simp add: generate_forensic_summary_def Let_def)

lemma analyze_conversation_redate:
  "map_sum id (with_analysis_date d) (analyze_conversation now msgs) = analyze_conversation d msgs"
  by (simp add: analyze_conversation_def with_analysis_date_def forensic_redate
      split: sum.splits)

text \<open>
  C8, as stated, fails: the forensic summary carries \<^verbatim>\<open>datetime.now()\<close> as
  \<open>analysis_date\<close>, so two runs on the same single message at different clock readings
  return different structures.
\<close>

theorem analysis_depends_on_clock:
  "analyze_darvo_patterns 0 0
     [\<lparr>msg_text = Some ''ok'', msg_sender = None, msg_timestamp = None, msg_platform = None\<rparr>] []
   \<noteq> analyze_darvo_patterns 0 1
     [\<lparr>msg_text = Some ''ok'', msg_sender = None, msg_timestamp = None, msg_platform = None\<rparr>] []"
proof
  let ?m = "[\<lparr>msg_text = Some ''ok'', msg_sender = None, msg_timestamp = None, msg_platform = None\<rparr>]"
  assume eq: "analyze_darvo_patterns 0 0 ?m [] = analyze_darvo_patterns 0 1 ?m []"
  have "map_sum id (analysis_date \<circ> forensic) (analyze_darvo_patterns 0 now ?m []) = Inr now" for now
    by (simp add: analyze_darvo_patterns_def analyze_conversation_def
        detect_compound_patterns_def forensic_date)
  from this [of 0] this [of 1] eq show False by simp
qed

text \<open>
  C8, amended.  For every message list the result is a function of the messages, the
  static tables and the one clock reading stored as \<open>analysis_date\<close>: two runs, at any
  clock readings, agree in everything else, that is, they are equal once the
  \<open>analysis_date\<close> of both is set to the same value.
\<close>

theorem analysis_deterministic_up_to_analysis_date:
  "map_sum id (with_analysis_date d) (analyze_darvo_patterns now_wrap now msgs [])
   = map_sum id (with_analysis_date d) (analyze_darvo_patterns now_wrap' now' msgs [])"
proof (cases "msgs = []")
  case True
  then show ?thesis
    by (simp add: analyze_darvo_patterns_def empty_analysis_def with_analysis_date_def)
next
  case False
  then show ?thesis
    by (simp add: analyze_darvo_patterns_def analyze_conversation_redate)
qed

section \<open>One result and one weight per message and subcategory\<close>

lemma scan_keywords_first:
  "scan_keywords mk msg subcat kws results =
     (case first_keyword kws msg of
        None \<Rightarrow> results
      | Some kw \<Rightarrow> record_hit results subcat (mk msg subcat kw))"
  by (induction kws) (simp_all add: first_keyword_def)

lemma first_keyword_None: "first_keyword kws msg = None \<longleftrightarrow> \<not> subcategory_matches kws msg"
  by (auto simp: first_keyword_def subcategory_matches_def find_None_iff list_ex_iff)

lemma map_of_record_hit:
  "map_of (record_hit results subcat inst) k =
     (if k = subcat
      then map_option (\<lambda>e. e\<lparr>hit_count := hit_count e + 1, instances := instances e @ [inst]\<rparr>)
             (map_of results k)
      else map_of results k)"
  by (induction results subcat inst rule: record_hit.induct) auto

lemma map_of_scan_keywords:
  "map_of (scan_keywords mk msg subcat kws results) k =
     (if k = subcat \<and> subcategory_matches kws msg
      then map_option (\<lambda>e. e\<lparr>hit_count := hit_count e + 1,
                             instances := instances e @ [mk msg subcat (the (first_keyword kws msg))]\<rparr>)
             (map_of results k)
      else map_of results k)"
  using first_keyword_None [of kws msg]
  by (auto simp: scan_keywords_first map_of_record_hit split: option.splits)

lemma map_of_scan_subcategories_other:
  "k \<notin> fst ` set table \<Longrightarrow> map_of (scan_subcategories mk msg table results) k = map_of results k"
  by (induction table arbitrary: results) (auto simp: map_of_scan_keywords)

lemma map_of_scan_subcategories:
  "distinct (map fst table) \<Longrightarrow> (subcat, kws) \<in> set table \<Longrightarrow>
   map_of (scan_subcategories mk msg table results) subcat =
     (if subcategory_matches kws msg
      then map_option (\<lambda>e. e\<lparr>hit_count := hit_count e + 1,
                             instances := instances e @ [mk msg subcat (the (first_keyword kws msg))]\<rparr>)
             (map_of results subcat)
      else map_of results subcat)"
proof (induction table arbitrary: results)
  case Nil
  then show ?case by simp
next
  case (Cons p table)
  obtain s ks where p: "p = (s, ks)" by (cases p)
  show ?case
  proof (cases "s = subcat")
    case True
    with Cons.prems p have "ks = kws" "subcat \<notin> fst ` set table"
      by (auto simp: image_iff)
    with True p show ?thesis
      by (simp add: map_of_scan_subcategories_other map_of_scan_keywords)
  next
    case False
    with Cons.prems p have "(subcat, kws) \<in> set table" "distinct (map fst table)" by auto
    with False p show ?thesis
      by (simp add: Cons.IH map_of_scan_keywords)
  qed
qed

lemma map_of_scan_messages:
  "distinct (map fst table) \<Longrightarrow> (subcat, kws) \<in> set table \<Longrightarrow>
   map_of results subcat = Some e \<Longrightarrow>
   map_of (scan_messages mk table msgs results) subcat =
     Some \<lparr>hit_count = hit_count e + length (filter (subcategory_matches kws) msgs),
           instances = instances e @ map (\<lambda>msg. mk msg subcat (the (first_keyword kws msg)))
                                        (filter (subcategory_matches kws) msgs)\<rparr>"
proof (induction msgs arbitrary: results e)
  case Nil
  then show ?case by simp
next
  case (Cons msg msgs)
  show ?case
  proof (cases "subcategory_matches kws msg")
    case True
    let ?e = "e\<lparr>hit_count := hit_count e + 1,
                 instances := instances e @ [mk msg subcat (the (first_keyword kws msg))]\<rparr>"
    have "map_of (scan_subcategories mk msg table results) subcat = Some ?e"
      using Cons.prems True by (simp add: map_of_scan_subcategories)
    from Cons.IH [OF Cons.prems(1,2) this] True show ?thesis by simp
  next
    case False
    have "map_of (scan_subcategories mk msg table results) subcat = Some e"
      using Cons.prems False by (simp add: map_of_scan_subcategories)
    from Cons.IH [OF Cons.prems(1,2) this] False show ?thesis by simp
  qed
qed

lemma scan_messages_one_result:
  assumes "distinct (map fst table)"
    and "map fst init = map fst table"
    and "list_all (\<lambda>(k, e). e = empty_entry) init"
  shows "one_result_per_message mk table msgs (scan_messages mk table msgs init)"
  unfolding one_result_per_message_def list_all_iff
proof (clarify)
  fix subcat kws
  assume mem: "(subcat, kws) \<in> set table"
  then have "subcat \<in> fst ` set init"
    using assms(2) by (metis image_eqI fst_conv set_map)
  then obtain e where e: "(subcat, e) \<in> set init" by auto
  with assms(3) have "e = empty_entry" by (auto simp: list_all_iff)
  moreover have "map_of init subcat = Some e"
    using e assms(1,2) by (simp add: map_of_eq_Some_iff)
  ultimately show "map_of (scan_messages mk table msgs init) subcat =
       Some \<lparr>hit_count = length (filter (subcategory_matches kws) msgs),
             instances = map (\<lambda>msg. mk msg subcat (the (first_keyword kws msg)))
                           (filter (subcategory_matches kws) msgs)\<rparr>"
    using map_of_scan_messages [OF assms(1) mem, of init e mk msgs]
    by (simp add: empty_entry_def)
qed


lemma score_keywords_match:
  "score_keywords add txt w kws a =
     (if list_ex (\<lambda>kw. keyword_search kw txt) kws then add w a else a)"
  by (induction kws) auto

lemma score_subcategories_sum:
  assumes add0: "\<And>a. add 0 a = a"
    and add2: "\<And>x y a. add y (add x a) = add (x + y) a"
  shows "score_subcategories add weight (lower (get_text msg)) table a
           = add (message_score weight table msg) a"
proof (induction table arbitrary: a)
  case Nil
  then show ?case by (simp add: message_score_def add0)
next
  case (Cons p table)
  obtain s ks where p: "p = (s, ks)" by (cases p)
  have "message_score weight (p # table) msg =
          (if subcategory_matches ks msg then weight s else 0) + message_score weight table msg"
    by (simp add: message_score_def p)
  then show ?case
    by (simp add: p Cons.IH score_keywords_match subcategory_matches_def add2 add0)
qed

lemma add_zero:
  "add_deny 0 a = a" "add_attack 0 a = a" "add_reverse 0 a = a"
  "add_institutional 0 a = a" "add_child_focused 0 a = a"
  by (simp_all add: add_deny_def add_attack_def add_reverse_def add_institutional_def
      add_child_focused_def)

lemma add_twice:
  "add_deny y (add_deny x a) = add_deny (x + y) a"
  "add_attack y (add_attack x a) = add_attack (x + y) a"
  "add_reverse y (add_reverse x a) = add_reverse (x + y) a"
  "add_institutional y (add_institutional x a) = add_institutional (x + y) a"
  "add_child_focused y (add_child_focused x a) = add_child_focused (x + y) a"
  by (simp_all add: add_deny_def add_attack_def add_reverse_def add_institutional_def
      add_child_focused_def)

lemma score_message_eq:
  "score_message a msg =
     add_child_focused (child_score msg)
       (add_institutional (institutional_score msg)
          (add_reverse (reverse_score msg)
             (add_attack (attack_score msg) (add_deny (deny_score msg) a))))"
  by (simp add: score_message_def Let_def score_subcategories_sum add_zero add_twice
      deny_score_def attack_score_def reverse_score_def institutional_score_def
      child_score_def)

lemma score_messages_eq:
  "score_messages msgs a =
     \<lparr>acc_total = acc_total a + (\<Sum>m\<leftarrow>msgs. deny_score m + attack_score m + reverse_score m
                                      + institutional_score m + child_score m),
      acc_scores =
        \<lparr>cs_deny = cs_deny (acc_scores a) + (\<Sum>m\<leftarrow>msgs. deny_score m),
         cs_attack = cs_attack (acc_scores a) + (\<Sum>m\<leftarrow>msgs. attack_score m),
         cs_reverse = cs_reverse (acc_scores a) + (\<Sum>m\<leftarrow>msgs. reverse_score m),
         cs_institutional = cs_institutional (acc_scores a) + (\<Sum>m\<leftarrow>msgs. institutional_score m),
         cs_child_focused = cs_child_focused (acc_scores a) + (\<Sum>m\<leftarrow>msgs. child_score m)\<rparr>\<rparr>"
proof (induction msgs arbitrary: a)
  case Nil
  then show ?case by simp
next
  case (Cons m msgs)
  show ?case
    by (simp add: Cons.IH score_message_eq add_deny_def add_attack_def add_reverse_def
        add_institutional_def add_child_focused_def)
qed

lemma calculate_severity_scores:
  "sa_category_scores (calculate_severity msgs) =
     Some \<lparr>cs_deny = (\<Sum>m\<leftarrow>msgs. deny_score m),
           cs_attack = (\<Sum>m\<leftarrow>msgs. attack_score m),
           cs_reverse = (\<Sum>m\<leftarrow>msgs. reverse_score m),
           cs_institutional = (\<Sum>m\<leftarrow>msgs. institutional_score m),
           cs_child_focused = (\<Sum>m\<leftarrow>msgs. child_score m)\<rparr>"
  and calculate_severity_total:
  "total_score (calculate_severity msgs) =
     (\<Sum>m\<leftarrow>msgs. deny_score m + attack_score m + reverse_score m
                 + institutional_score m + child_score m)"
  by (simp_all add: calculate_severity_def Let_def score_messages_eq zero_scores_def)

lemma tables_distinct:
  "distinct (map fst DARVO_INDICATORS_Deny)"
  "distinct (map fst DARVO_INDICATORS_Attack)"
  "distinct (map fst DARVO_INDICATORS_Reverse)"
  "distinct (map fst DARVO_INDICATORS_Institutional)"
  "distinct (map fst CHILD_FOCUSED_DARVO)"
  by (simp_all add: DARVO_INDICATORS_Deny_def DARVO_INDICATORS_Attack_def
      DARVO_INDICATORS_Reverse_def DARVO_INDICATORS_Institutional_def CHILD_FOCUSED_DARVO_def)

lemma weights_cover_indicators:
  "map fst DARVO_SEVERITY_WEIGHTS_Deny = map fst DARVO_INDICATORS_Deny"
  "map fst DARVO_SEVERITY_WEIGHTS_Attack = map fst DARVO_INDICATORS_Attack"
  "map fst DARVO_SEVERITY_WEIGHTS_Reverse = map fst DARVO_INDICATORS_Reverse"
  "map fst DARVO_SEVERITY_WEIGHTS_Institutional = map fst DARVO_INDICATORS_Institutional"
  by (simp_all add: DARVO_INDICATORS_Deny_def DARVO_INDICATORS_Attack_def
      DARVO_INDICATORS_Reverse_def DARVO_INDICATORS_Institutional_def
      DARVO_SEVERITY_WEIGHTS_Deny_def DARVO_SEVERITY_WEIGHTS_Attack_def
      DARVO_SEVERITY_WEIGHTS_Reverse_def DARVO_SEVERITY_WEIGHTS_Institutional_def)

text \<open>
  C5.  In each of the five detectors every subcategory holds, for every message, at most
  one instance: exactly one for each message in which some keyword of the subcategory is
  found, made for the first such keyword in the order of the table.  The severity adds,
  for every message, one weight for each subcategory that matches it, whatever the number
  of its keywords that are found.
\<close>

theorem one_result_and_one_weight_per_subcategory:
  "one_result_per_message (new_instance (weight_of DARVO_SEVERITY_WEIGHTS_Deny) None)
      DARVO_INDICATORS_Deny msgs (detect_deny_patterns msgs)
   \<and> one_result_per_message (new_instance (weight_of DARVO_SEVERITY_WEIGHTS_Attack) None)
      DARVO_INDICATORS_Attack msgs (detect_attack_patterns msgs)
   \<and> one_result_per_message (new_instance (weight_of DARVO_SEVERITY_WEIGHTS_Reverse) None)
      DARVO_INDICATORS_Reverse msgs (detect_reverse_patterns msgs)
   \<and> one_result_per_message (new_instance (weight_of DARVO_SEVERITY_WEIGHTS_Institutional) None)
      DARVO_INDICATORS_Institutional msgs (detect_institutional_patterns msgs)
   \<and> one_result_per_message (new_instance (\<lambda>_. 5) (Some True))
      CHILD_FOCUSED_DARVO msgs (detect_child_focused_patterns msgs)
   \<and> sa_category_scores (calculate_severity msgs) =
       Some \<lparr>cs_deny = (\<Sum>m\<leftarrow>msgs. deny_score m),
             cs_attack = (\<Sum>m\<leftarrow>msgs. attack_score m),
             cs_reverse = (\<Sum>m\<leftarrow>msgs. reverse_score m),
             cs_institutional = (\<Sum>m\<leftarrow>msgs. institutional_score m),
             cs_child_focused = (\<Sum>m\<leftarrow>msgs. child_score m)\<rparr>
   \<and> total_score (calculate_severity msgs) =
       (\<Sum>m\<leftarrow>msgs. deny_score m + attack_score m + reverse_score m
                   + institutional_score m + child_score m)"
proof (intro conjI)
  show "one_result_per_message (new_instance (weight_of DARVO_SEVERITY_WEIGHTS_Deny) None)
      DARVO_INDICATORS_Deny msgs (detect_deny_patterns msgs)"
    unfolding detect_deny_patterns_def
    by (rule scan_messages_one_result) (simp_all add: tables_distinct DARVO_INDICATORS_Deny_def)
  show "one_result_per_message (new_instance (weight_of DARVO_SEVERITY_WEIGHTS_Attack) None)
      DARVO_INDICATORS_Attack msgs (detect_attack_patterns msgs)"
    unfolding detect_attack_patterns_def
    by (rule scan_messages_one_result) (simp_all add: tables_distinct DARVO_INDICATORS_Attack_def)
  show "one_result_per_message (new_instance (weight_of DARVO_SEVERITY_WEIGHTS_Reverse) None)
      DARVO_INDICATORS_Reverse msgs (detect_reverse_patterns msgs)"
    unfolding detect_reverse_patterns_def
    by (rule scan_messages_one_result) (simp_all add: tables_distinct DARVO_INDICATORS_Reverse_def)
  show "one_result_per_message (new_instance (weight_of DARVO_SEVERITY_WEIGHTS_Institutional) None)
      DARVO_INDICATORS_Institutional msgs (detect_institutional_patterns msgs)"
    unfolding detect_institutional_patterns_def
    by (rule scan_messages_one_result)
      (simp_all add: tables_distinct DARVO_INDICATORS_Institutional_def)
  show "one_result_per_message (new_instance (\<lambda>_. 5) (Some True))
      CHILD_FOCUSED_DARVO msgs (detect_child_focused_patterns msgs)"
    unfolding detect_child_focused_patterns_def
    by (rule scan_messages_one_result) (simp_all add: tables_distinct CHILD_FOCUSED_DARVO_def)
qed (rule calculate_severity_scores calculate_severity_total)+

theorem one_result_and_one_weight_per_subcategory_witness:
  "map_of (detect_attack_patterns
      [\<lparr>msg_text = Some ''Toxic and vindictive'', msg_sender = None,
        msg_timestamp = None, msg_platform = None\<rparr>]) ''character_assassination''
   = Some \<lparr>hit_count = 1,
           instances =
             [\<lparr>inst_keyword = ''vindictive'', inst_text = ''Toxic and vindictive'',
               inst_sender = ''Unknown'', inst_timestamp = None, inst_severity = 4,
               inst_high_risk = None\<rparr>]\<rparr>"
proof -
  let ?m = "\<lparr>msg_text = Some ''Toxic and vindictive'', msg_sender = None,
        msg_timestamp = None, msg_platform = None\<rparr>"
  let ?K = "[''you're a bad mother'', ''you're a bad father'', ''unfit parent'', ''bad person'',
        ''terrible'', ''vindictive'', ''vengeful'', ''manipulative'', ''controlling'',
        ''abusive'', ''toxic'', ''you're the problem'', ''you're the one'',
        ''you're actually'', ''you're just like'', ''narcissist'', ''sociopath'', ''psycho'']"
  have "one_result_per_message (new_instance (weight_of DARVO_SEVERITY_WEIGHTS_Attack) None)
      DARVO_INDICATORS_Attack [?m] (detect_attack_patterns [?m])"
    using one_result_and_one_weight_per_subcategory [of "[?m]"] by (elim conjE)
  moreover have "(''character_assassination'', ?K) \<in> set DARVO_INDICATORS_Attack"
    by (simp add: DARVO_INDICATORS_Attack_def)
  ultimately have entry: "map_of (detect_attack_patterns [?m]) ''character_assassination'' =
      Some \<lparr>hit_count = length (filter (subcategory_matches ?K) [?m]),
            instances = map (\<lambda>msg. new_instance (weight_of DARVO_SEVERITY_WEIGHTS_Attack) None
                                     msg ''character_assassination'' (the (first_keyword ?K msg)))
                          (filter (subcategory_matches ?K) [?m])\<rparr>"
    unfolding one_result_per_message_def list_all_iff by fast
  have m: "subcategory_matches ?K ?m"
    by (simp only: subcategory_matches_def list_ex_Nil_iff list_ex_Cons_iff record_eval text_eval)
  have f: "first_keyword ?K ?m = Some ''vindictive''"
    by (simp only: first_keyword_def find.simps record_eval text_eval)
  have w: "weight_of DARVO_SEVERITY_WEIGHTS_Attack ''character_assassination'' = 4"
    by (simp add: weight_of_def DARVO_SEVERITY_WEIGHTS_Attack_def)
  show ?thesis
    unfolding entry by (simp add: m f w new_instance_def get_text_def get_sender_def)
qed

section \<open>Risk level\<close>

lemmas score_eval =
  deny_score_def attack_score_def reverse_score_def institutional_score_def child_score_def
  message_score_def subcategory_matches_def list_ex_Nil_iff list_ex_Cons_iff
  case_prod_conv text_message_def timed_message_def record_eval text_eval

lemma scores_custody:
  "deny_score (text_message ''custody'') = 0"
  "attack_score (text_message ''custody'') = 5"
  "reverse_score (text_message ''custody'') = 0"
  "institutional_score (text_message ''custody'') = 0"
  "child_score (text_message ''custody'') = 0"
  by (simp only: DARVO_INDICATORS_Deny_def DARVO_INDICATORS_Attack_def
        DARVO_INDICATORS_Reverse_def DARVO_INDICATORS_Institutional_def
        CHILD_FOCUSED_DARVO_def score_eval,
      simp add: weight_of_def DARVO_SEVERITY_WEIGHTS_Attack_def)+

lemma scores_full_custody:
  "deny_score (text_message ''I'll get full custody'') = 0"
  "attack_score (text_message ''I'll get full custody'') = 5"
  "reverse_score (text_message ''I'll get full custody'') = 0"
  "institutional_score (text_message ''I'll get full custody'') = 0"
  "child_score (text_message ''I'll get full custody'') = 5"
  by (simp only: DARVO_INDICATORS_Deny_def DARVO_INDICATORS_Attack_def
        DARVO_INDICATORS_Reverse_def DARVO_INDICATORS_Institutional_def
        CHILD_FOCUSED_DARVO_def score_eval,
      simp add: weight_of_def DARVO_SEVERITY_WEIGHTS_Attack_def)+

lemma risk_level_eq:
  "risk_level (calculate_severity msgs) =
     (if (\<Sum>m\<leftarrow>msgs. child_score m) > 0 then ''critical''
      else risk_of_total (total_score (calculate_severity msgs)))"
  by (simp add: calculate_severity_def Let_def score_messages_eq zero_scores_def
      del: sum_list_eq_0_iff)

lemma message_score_pos:
  "message_score (\<lambda>_. 5) table msg > 0 \<longleftrightarrow> any_keyword table (lower (get_text msg))"
  by (induction table)
    (auto simp: message_score_def any_keyword_def subcategory_matches_def split: if_splits)

lemma child_total_pos:
  "(\<Sum>m\<leftarrow>msgs. child_score m) > 0
     \<longleftrightarrow> list_ex (\<lambda>m. any_keyword CHILD_FOCUSED_DARVO (lower (get_text m))) msgs"
  by (induction msgs) (auto simp: child_score_def message_score_pos)

text \<open>
  C3, as stated, fails in its example: the word custody is a keyword of the attack table
  (threat of consequences, weight 5) and of no child-focused subcategory, so a message
  that says only that has a child-focused subtotal of 0 and the risk level low.
\<close>

theorem custody_alone_is_low_risk:
  "risk_level (calculate_severity [text_message ''custody'']) = ''low''
   \<and> risk_level (calculate_severity [text_message ''custody'']) \<noteq> ''critical''
   \<and> total_score (calculate_severity [text_message ''custody'']) = 5
   \<and> sa_category_scores (calculate_severity [text_message ''custody'']) =
       Some \<lparr>cs_deny = 0, cs_attack = 5, cs_reverse = 0, cs_institutional = 0,
             cs_child_focused = 0\<rparr>"
  by (simp add: risk_level_eq calculate_severity_total calculate_severity_scores
      scores_custody risk_of_total_def)

text \<open>
  C3, amended.  The risk level is critical when the child-focused subtotal is positive,
  that is, when some message contains a keyword of the child-focused table; otherwise it
  follows the total: above 50 critical, 31 to 50 high, 16 to 30 medium, at most 15 low.
  A single message with the child-focused keyword "I'll get full custody" has the total
  10 and the risk level critical.
\<close>

theorem risk_level_thresholds:
  "\<exists>cs. sa_category_scores (calculate_severity msgs) = Some cs
     \<and> (cs_child_focused cs > 0
          \<longleftrightarrow> list_ex (\<lambda>m. any_keyword CHILD_FOCUSED_DARVO (lower (get_text m))) msgs)
     \<and> risk_level (calculate_severity msgs) =
         (if cs_child_focused cs > 0 then ''critical''
          else if total_score (calculate_severity msgs) > 50 then ''critical''
          else if total_score (calculate_severity msgs) > 30 then ''high''
          else if total_score (calculate_severity msgs) > 15 then ''medium''
          else ''low'')
     \<and> total_score (calculate_severity [text_message ''I'll get full custody'']) = 10
     \<and> risk_level (calculate_severity [text_message ''I'll get full custody'']) = ''critical''"
proof -
  have "total_score (calculate_severity [text_message ''I'll get full custody'']) = 10"
    by (simp add: calculate_severity_total scores_full_custody)
  moreover have "risk_level (calculate_severity [text_message ''I'll get full custody'']) = ''critical''"
    by (simp add: risk_level_eq scores_full_custody)
  moreover have "risk_level (calculate_severity msgs) =
         (if (\<Sum>m\<leftarrow>msgs. child_score m) > 0 then ''critical''
          else if total_score (calculate_severity msgs) > 50 then ''critical''
          else if total_score (calculate_severity msgs) > 30 then ''high''
          else if total_score (calculate_severity msgs) > 15 then ''medium''
          else ''low'')"
    unfolding risk_level_eq risk_of_total_def by (rule refl)
  ultimately show ?thesis
    using child_total_pos [of msgs] by (simp add: calculate_severity_scores del: sum_list_eq_0_iff)
qed

section \<open>Compound patterns\<close>

lemma check_pattern_loop_iff:
  "i \<le> length target \<Longrightarrow>
   check_pattern_loop window target i = length target
     \<longleftrightarrow> (\<exists>ws. subseq ws window \<and> list_all2 has_role (drop i target) ws)"
proof (induction window arbitrary: i)
  case Nil
  then show ?case by (auto simp: list_all2_Nil2 dest: list_emb_Nil2)
next
  case (Cons w window)
  show ?case
  proof (cases "i < length target \<and> has_role (target ! i) w")
    case True
    then have d: "drop i target = target ! i # drop (Suc i) target"
      by (simp add: Cons_nth_drop_Suc)
    have "check_pattern_loop (w # window) target i = length target
            \<longleftrightarrow> (\<exists>ws. subseq ws window \<and> list_all2 has_role (drop (Suc i) target) ws)"
      using True Cons.IH [of "Suc i"] by (simp add: has_role_def [symmetric])
    also have "\<dots> \<longleftrightarrow> (\<exists>ws. subseq ws (w # window) \<and> list_all2 has_role (drop i target) ws)"
    proof
      assume "\<exists>ws. subseq ws window \<and> list_all2 has_role (drop (Suc i) target) ws"
      then obtain ws where "subseq ws window" "list_all2 has_role (drop (Suc i) target) ws"
        by blast
      with True d have "subseq (w # ws) (w # window) \<and> list_all2 has_role (drop i target) (w # ws)"
        by simp
      then show "\<exists>ws. subseq ws (w # window) \<and> list_all2 has_role (drop i target) ws" by blast
    next
      assume "\<exists>ws. subseq ws (w # window) \<and> list_all2 has_role (drop i target) ws"
      then obtain ws where ws: "subseq ws (w # window)" "list_all2 has_role (drop i target) ws"
        by blast
      with d obtain v vs where v: "ws = v # vs" "list_all2 has_role (drop (Suc i) target) vs"
        by (auto simp: list_all2_Cons1)
      have "subseq vs window"
      proof (cases "v = w")
        case True
        with ws v show ?thesis by simp
      next
        case False
        with ws v have "subseq (v # vs) window" by simp
        then show ?thesis by (rule subseq_Cons')
      qed
      with v show "\<exists>ws. subseq ws window \<and> list_all2 has_role (drop (Suc i) target) ws" by blast
    qed
    finally show ?thesis .
  next
    case False
    have "check_pattern_loop (w # window) target i = length target
            \<longleftrightarrow> (\<exists>ws. subseq ws window \<and> list_all2 has_role (drop i target) ws)"
      using False Cons.IH [of i] Cons.prems by (auto simp: has_role_def [symmetric])
    also have "\<dots> \<longleftrightarrow> (\<exists>ws. subseq ws (w # window) \<and> list_all2 has_role (drop i target) ws)"
    proof
      assume "\<exists>ws. subseq ws window \<and> list_all2 has_role (drop i target) ws"
      then show "\<exists>ws. subseq ws (w # window) \<and> list_all2 has_role (drop i target) ws"
        by (meson list_emb_Cons)
    next
      assume "\<exists>ws. subseq ws (w # window) \<and> list_all2 has_role (drop i target) ws"
      then obtain ws where ws: "subseq ws (w # window)" "list_all2 has_role (drop i target) ws"
        by blast
      show "\<exists>ws. subseq ws window \<and> list_all2 has_role (drop i target) ws"
      proof (cases "i < length target")
        case True
        then have d: "drop i target = target ! i # drop (Suc i) target"
          by (simp add: Cons_nth_drop_Suc)
        with ws obtain v vs where v: "ws = v # vs" "has_role (target ! i) v"
          by (auto simp: list_all2_Cons1)
        with False True have "v \<noteq> w" by auto
        with ws v have "subseq ws window" by simp
        with ws show ?thesis by blast
      next
        case False
        with Cons.prems have "drop i target = []" by simp
        with ws have "ws = []" by simp
        with ws show ?thesis by auto
      qed
    qed
    finally show ?thesis .
  qed
qed

lemma check_pattern_in_window_iff:
  "check_pattern_in_window window target \<longleftrightarrow> roles_in_order target window"
  using check_pattern_loop_iff [of 0 target window]
  by (auto simp: check_pattern_in_window_def roles_in_order_def list_ex_iff)

lemma roles_in_order_length:
  "roles_in_order target window \<Longrightarrow> length target \<le> length window"
  by (auto simp: roles_in_order_def list_ex_iff dest!: list_all2_lengthD list_emb_length)

lemma scan_offsets_eq:
  "pd_pattern pd \<noteq> [] \<Longrightarrow>
   scan_offsets name pd mcs is found =
     Inr (found @ map (\<lambda>i. window_match name pd (window_at pd mcs i))
                    (filter (\<lambda>i. roles_in_order (pd_pattern pd) (window_at pd mcs i)) is))"
proof (induction "is" arbitrary: found)
  case Nil
  then show ?case by simp
next
  case (Cons i "is")
  have "window_at pd mcs i \<noteq> []" if "roles_in_order (pd_pattern pd) (window_at pd mcs i)"
    using roles_in_order_length [OF that] Cons.prems by auto
  then show ?case
    using Cons.prems
    by (simp add: Let_def check_pattern_in_window_iff build_match_def Cons.IH
        window_at_def [symmetric])
qed

lemma scan_offsets_empty_pattern:
  "pd_pattern pd = [] \<Longrightarrow> length mcs \<in> set is \<Longrightarrow> scan_offsets name pd mcs is found = Inl IndexError"
proof (induction "is" arbitrary: found)
  case Nil
  then show ?case by simp
next
  case (Cons i "is")
  have c: "check_pattern_in_window w []" for w
    by (induction w) (simp_all add: check_pattern_in_window_def)
  show ?case
  proof (cases "i = length mcs")
    case True
    then show ?thesis using Cons.prems by (simp add: Let_def c build_match_def)
  next
    case False
    with Cons.prems have "length mcs \<in> set is" by simp
    from Cons.IH [OF Cons.prems(1) this] show ?thesis
      using Cons.prems(1) by (simp add: Let_def c build_match_def)
  qed
qed

lemma late_windows_do_not_match:
  assumes "pd_pattern pd \<noteq> []"
  shows "filter (\<lambda>i. roles_in_order (pd_pattern pd) (window_at pd mcs i)) (offsets mcs pd)
       = filter (\<lambda>i. roles_in_order (pd_pattern pd) (window_at pd mcs i)) [0 ..< length mcs]"
proof -
  let ?P = "\<lambda>i. roles_in_order (pd_pattern pd) (window_at pd mcs i)"
  let ?n = "length mcs + 1 - length (pd_pattern pd)"
  have le: "?n \<le> length mcs" using assms by (cases "pd_pattern pd") auto
  have "\<not> ?P i" if "?n \<le> i" for i
  proof
    assume "?P i"
    from roles_in_order_length [OF this] have "length (pd_pattern pd) \<le> length mcs - i"
      by (simp add: window_at_def)
    with that assms show False by (cases "pd_pattern pd") auto
  qed
  then have "filter ?P [?n ..< length mcs] = []" by (auto simp: filter_empty_conv)
  moreover have "[0 ..< length mcs] = [0 ..< ?n] @ [?n ..< length mcs]"
    using le by (metis le0 upt_add_eq_append le_add_diff_inverse)
  ultimately show ?thesis by (simp add: offsets_def)
qed

lemma scan_offsets_pattern_matches:
  "pd_pattern pd \<noteq> [] \<Longrightarrow>
   scan_offsets name pd mcs (offsets mcs pd) found = Inr (found @ pattern_matches name pd mcs)"
  by (simp add: scan_offsets_eq late_windows_do_not_match pattern_matches_def)

lemma scan_patterns_eq:
  "list_all (\<lambda>(name, pd). pd_pattern pd \<noteq> []) pats \<Longrightarrow>
   scan_patterns pats mcs found =
     Inr (found @ concat (map (\<lambda>(name, pd). pattern_matches name pd mcs) pats))"
  by (induction pats arbitrary: found) (auto simp: scan_offsets_pattern_matches)

lemma detect_compound_patterns_eq:
  "detect_compound_patterns msgs =
     Inr (if length msgs < 2 then []
          else concat (map (\<lambda>(name, pd). pattern_matches name pd (classify_all msgs))
                         DARVO_COMPOUND_PATTERNS))"
proof -
  have "list_all (\<lambda>(name, pd). pd_pattern pd \<noteq> []) DARVO_COMPOUND_PATTERNS"
    by (simp add: DARVO_COMPOUND_PATTERNS_def)
  then show ?thesis
    by (simp add: detect_compound_patterns_def scan_patterns_eq)
qed



lemma pattern_matches_empty_iff:
  "pattern_matches name pd mcs = []
     \<longleftrightarrow> \<not> list_ex (\<lambda>i. check_pattern_in_window (window_at pd mcs i) (pd_pattern pd))
              [0 ..< length mcs]"
  by (simp add: pattern_matches_def filter_empty_conv list_ex_iff check_pattern_in_window_iff)



lemma classify_examples:
  "classify (text_message ''prove it'') = [''deny'']"
  "classify (text_message ''ok'') = []"
  "classify (text_message ''toxic'') = [''attack'']"
  "classify (text_message ''we both'') = [''reverse'']"
  by (simp_all add: classify_def text_message_def get_text_def lower_def lower_char_Char
      roles_prove_it roles_ok roles_toxic roles_we_both)


section \<open>Forensic summary\<close>

lemma shifted_indices:
  "{i + k |k. k < Suc n \<and> P ((m # ms) ! k)} =
     (if P m then {i} else {}) \<union> {Suc i + k |k. k < n \<and> P (ms ! k)}"
proof -
  have "(\<exists>k. x = i + k \<and> k < Suc n \<and> P ((m # ms) ! k))
          \<longleftrightarrow> (x = i \<and> P m) \<or> (\<exists>k. x = Suc i + k \<and> k < n \<and> P (ms ! k))" for x
  proof
    assume "\<exists>k. x = i + k \<and> k < Suc n \<and> P ((m # ms) ! k)"
    then obtain k where k: "x = i + k" "k < Suc n" "P ((m # ms) ! k)" by blast
    show "(x = i \<and> P m) \<or> (\<exists>k. x = Suc i + k \<and> k < n \<and> P (ms ! k))"
    proof (cases k)
      case 0
      with k show ?thesis by simp
    next
      case (Suc k')
      with k have "x = Suc i + k' \<and> k' < n \<and> P (ms ! k')" by simp
      then show ?thesis by blast
    qed
  next
    assume "(x = i \<and> P m) \<or> (\<exists>k. x = Suc i + k \<and> k < n \<and> P (ms ! k))"
    then show "\<exists>k. x = i + k \<and> k < Suc n \<and> P ((m # ms) ! k)"
    proof
      assume "x = i \<and> P m"
      then have "x = i + 0 \<and> 0 < Suc n \<and> P ((m # ms) ! 0)" by simp
      then show ?thesis by blast
    next
      assume "\<exists>k. x = Suc i + k \<and> k < n \<and> P (ms ! k)"
      then obtain k where "x = Suc i + k" "k < n" "P (ms ! k)" by blast
      then have "x = i + Suc k \<and> Suc k < Suc n \<and> P ((m # ms) ! Suc k)" by simp
      then show ?thesis by blast
    qed
  qed
  then show ?thesis by auto
qed

lemma forensic_loop_sets:
  "messages_with_deny (forensic_loop i msgs s) =
     messages_with_deny s \<union> {i + k |k. k < length msgs \<and> deny_message (msgs ! k)}"
  "messages_with_attack (forensic_loop i msgs s) =
     messages_with_attack s \<union> {i + k |k. k < length msgs \<and> attack_message (msgs ! k)}"
  "messages_with_reverse (forensic_loop i msgs s) =
     messages_with_reverse s \<union> {i + k |k. k < length msgs \<and> reverse_message (msgs ! k)}"
  "messages_with_child (forensic_loop i msgs s) =
     messages_with_child s \<union> {i + k |k. k < length msgs \<and> child_message (msgs ! k)}"
proof (induction msgs arbitrary: i s)
  case Nil
  {
    case 1 show ?case by simp
  next
    case 2 show ?case by simp
  next
    case 3 show ?case by simp
  next
    case 4 show ?case by simp
  }
next
  case (Cons m msgs)
  {
    case 1 show ?case
      unfolding length_Cons shifted_indices
      by (simp add: Let_def Cons.IH(1) deny_message_def attack_message_def
          reverse_message_def child_message_def)
  next
    case 2 show ?case
      unfolding length_Cons shifted_indices
      by (simp add: Let_def Cons.IH(2) deny_message_def attack_message_def
          reverse_message_def child_message_def)
  next
    case 3 show ?case
      unfolding length_Cons shifted_indices
      by (simp add: Let_def Cons.IH(3) deny_message_def attack_message_def
          reverse_message_def child_message_def)
  next
    case 4 show ?case
      unfolding length_Cons shifted_indices
      by (simp add: Let_def Cons.IH(4) deny_message_def attack_message_def
          reverse_message_def child_message_def)
  }
qed

lemma card_role_set:
  "card {k. k < length msgs \<and> P (msgs ! k)} = length (filter P msgs)"
  by (simp add: length_filter_conv_card)

lemma forensic_counts:
  "deny_instances (generate_forensic_summary now msgs) = length (filter deny_message msgs)"
  "attack_instances (generate_forensic_summary now msgs) = length (filter attack_message msgs)"
  "reverse_instances (generate_forensic_summary now msgs) = length (filter reverse_message msgs)"
  "child_focused_instances (generate_forensic_summary now msgs)
     = length (filter child_message msgs)"
  by (simp_all add: generate_forensic_summary_def Let_def forensic_loop_sets card_role_set)

lemma generate_forensic_summary_eq:
  "generate_forensic_summary now msgs =
     (let total_deny = length (filter deny_message msgs);
          total_attack = length (filter attack_message msgs);
          total_reverse = length (filter reverse_message msgs);
          total_child_focused = length (filter child_message msgs);
          full_pattern_present = (total_deny > 0 \<and> total_attack > 0 \<and> total_reverse > 0)
      in \<lparr>analysis_date = now,
          total_messages_analyzed = length msgs,
          deny_present = (total_deny > 0),
          attack_present = (total_attack > 0),
          reverse_present = (total_reverse > 0),
          full_darvo_pattern_detected = full_pattern_present,
          deny_instances = total_deny,
          attack_instances = total_attack,
          reverse_instances = total_reverse,
          child_focused_instances = total_child_focused,
          high_risk_indicators = (total_child_focused > 0),
          recommended_actions =
            generate_recommendations full_pattern_present (total_child_focused > 0)\<rparr>)"
  by (simp add: generate_forensic_summary_def Let_def forensic_loop_sets card_role_set)

lemma length_filter_mset:
  "mset xs = mset ys \<Longrightarrow> length (filter P xs) = length (filter P ys)"
  by (metis mset_filter size_mset)

lemma forensic_summary_permutation:
  "mset msgs' = mset msgs \<Longrightarrow>
   generate_forensic_summary now msgs' = generate_forensic_summary now msgs"
  using length_filter_mset [of msgs' msgs] mset_eq_length [of msgs' msgs]
  by (simp add: generate_forensic_summary_eq)

lemma role_examples:
  "deny_message (text_message ''prove it'')" "\<not> attack_message (text_message ''prove it'')"
  "\<not> reverse_message (text_message ''prove it'')" "\<not> child_message (text_message ''prove it'')"
  "\<not> deny_message (text_message ''toxic'')" "attack_message (text_message ''toxic'')"
  "\<not> reverse_message (text_message ''toxic'')" "\<not> child_message (text_message ''toxic'')"
  "\<not> deny_message (text_message ''we both'')" "\<not> attack_message (text_message ''we both'')"
  "reverse_message (text_message ''we both'')" "\<not> child_message (text_message ''we both'')"
  "\<not> deny_message (text_message ''ok'')" "\<not> attack_message (text_message ''ok'')"
  "\<not> reverse_message (text_message ''ok'')" "\<not> child_message (text_message ''ok'')"
  by (simp_all add: deny_message_def attack_message_def reverse_message_def child_message_def
      text_message_def get_text_def lower_def lower_char_Char
      roles_prove_it roles_ok roles_toxic roles_we_both)

lemma full_pattern_iff:
  "full_darvo_pattern_detected (generate_forensic_summary now msgs)
     \<longleftrightarrow> list_ex deny_message msgs \<and> list_ex attack_message msgs \<and> list_ex reverse_message msgs"
  by (simp add: generate_forensic_summary_eq Let_def list_ex_iff filter_empty_conv)

lemma shuffled_example_no_compound:
  "detect_compound_patterns
     [text_message ''we both'', text_message ''toxic'', text_message ''prove it''] = Inr []"
  by (simp add: detect_compound_patterns_eq DARVO_COMPOUND_PATTERNS_def
      pattern_matches_empty_iff window_at_def classify_all_def classify_examples
      check_pattern_in_window_def upt_rec)

text \<open>
  C4.  The instance counts of the forensic summary are the numbers of messages in which
  some keyword of the role is found, and the full pattern is detected exactly when each
  of the three roles has such a message.  The whole summary is the same for every
  rearrangement of the message list.  The flag can be set while the compound detector
  reports nothing: this happens for a reverse, an attack and a deny message in this order.
\<close>

theorem forensic_full_pattern_unordered:
  "deny_instances (generate_forensic_summary now msgs) = length (filter deny_message msgs)
   \<and> attack_instances (generate_forensic_summary now msgs) = length (filter attack_message msgs)
   \<and> reverse_instances (generate_forensic_summary now msgs)
        = length (filter reverse_message msgs)
   \<and> (full_darvo_pattern_detected (generate_forensic_summary now msgs)
        \<longleftrightarrow> list_ex deny_message msgs \<and> list_ex attack_message msgs
            \<and> list_ex reverse_message msgs)
   \<and> (mset msgs' = mset msgs \<longrightarrow>
        generate_forensic_summary now msgs' = generate_forensic_summary now msgs)
   \<and> (\<exists>ms. full_darvo_pattern_detected (generate_forensic_summary now ms)
          \<and> detect_compound_patterns ms = Inr [])"
proof (intro conjI impI)
  show "\<exists>ms. full_darvo_pattern_detected (generate_forensic_summary now ms)
          \<and> detect_compound_patterns ms = Inr []"
  proof (intro exI conjI)
    show "full_darvo_pattern_detected (generate_forensic_summary now
        [text_message ''we both'', text_message ''toxic'', text_message ''prove it''])"
      by (simp add: full_pattern_iff role_examples)
    show "detect_compound_patterns
        [text_message ''we both'', text_message ''toxic'', text_message ''prove it''] = Inr []"
      by (rule shuffled_example_no_compound)
  qed
next
  assume "mset msgs' = mset msgs"
  then show "generate_forensic_summary now msgs' = generate_forensic_summary now msgs"
    by (rule forensic_summary_permutation)
qed (simp_all only: forensic_counts full_pattern_iff)

theorem forensic_full_pattern_unordered_witness:
  "mset [text_message ''we both'', text_message ''toxic'', text_message ''prove it'']
     = mset [text_message ''prove it'', text_message ''toxic'', text_message ''we both'']
   \<and> full_darvo_pattern_detected (generate_forensic_summary 0
        [text_message ''we both'', text_message ''toxic'', text_message ''prove it''])
   \<and> full_darvo_pattern_detected (generate_forensic_summary 0
        [text_message ''prove it'', text_message ''toxic'', text_message ''we both''])
   \<and> deny_instances (generate_forensic_summary 0
        [text_message ''we both'', text_message ''toxic'', text_message ''prove it'']) = 1"
proof -
  let ?a = "[text_message ''we both'', text_message ''toxic'', text_message ''prove it'']"
  let ?b = "[text_message ''prove it'', text_message ''toxic'', text_message ''we both'']"
  have p: "mset ?a = mset ?b" by (simp add: add.commute add.left_commute)
  note t = forensic_full_pattern_unordered [of 0 ?b ?a]
  from t p have "generate_forensic_summary 0 ?a = generate_forensic_summary 0 ?b" by blast
  moreover from t have "full_darvo_pattern_detected (generate_forensic_summary 0 ?b)"
    by (simp add: role_examples)
  moreover from t have "deny_instances (generate_forensic_summary 0 ?b) = 1"
    by (simp add: role_examples)
  ultimately show ?thesis using p by simp
qed

section \<open>Timeline\<close>























section \<open>Buckets of the two time-based analyses\<close>
















end
